theory Spec2Isabelle
  imports Main "HOL-Library.Word"
begin

section \<open>The MSP client facade of \<open>pkg/client/msp/msp.go\<close>\<close>

text \<open>
  The file is a facade over two collaborators, a CA client and an identity manager, both
  reached through a session context. The embedding keeps Go's shapes:
  \<^item> a Go \<open>error\<close> is an \<open>error option\<close>, \<open>None\<close> being \<open>nil\<close>; a pointer or interface
    that may be \<open>nil\<close> is an \<open>option\<close> as well;
  \<^item> what a function of \<open>msp.go\<close> returns is the tuple the Go function returns;
  \<^item> a collaborator that returns \<open>(value, error)\<close> is a sum, \<open>Inl\<close> the error: a
    collaborator whose error is \<open>nil\<close> hands out a usable value. The identity-manager
    lookup returns \<open>(manager, ok)\<close> and is kept as that pair, since \<open>msp.go\<close> reads
    \<open>ok\<close> in one place and ignores it in another;
  \<^item> a method call on a \<open>nil\<close> interface and a dereference of a \<open>nil\<close> pointer panic:
    the outcome \<open>Panics\<close>;
  \<^item> every call that leaves \<open>msp.go\<close> is appended to a list of calls, in the order the
    code makes them, so that "is consulted", "is forwarded" and "is applied" are statements
    about that list. Within one operation of the facade every collaborator method is
    called at most once, so a collaborator is given by the answer it has for each argument.
\<close>

subsection \<open>Errors\<close>

text \<open>
  Go compares errors by identity (\<open>err == mspctx.ErrUserNotFound\<close>). The two sentinels
  are constructors of their own; \<open>fmt.Errorf\<close> and \<open>errors.WithMessage\<close> build new
  values from their arguments; \<open>Other\<close> is any error made elsewhere.

  Modelled from the spec: the declaration of the facade's own \<open>ErrUserNotFound\<close> is in
  another file of package \<open>msp\<close>; the spec calls it the facade's "own public
  UserNotFoundError", a value of the facade distinct from the collaborator's sentinel
  \<open>mspctx.ErrUserNotFound\<close>.
\<close>

datatype error =
    mspctx_ErrUserNotFound
  | ErrUserNotFound
  | Errorf string
  | WithMessage error string
  | Other string

datatype 'a outcome = Returns 'a | Panics

subsection \<open>Requests and responses\<close>

text \<open>
  Modelled from the spec: the request, response and user types are declared in other files
  (package \<open>msp\<close> for the facade's, \<open>mspapi\<close> for the collaborator's). The fields are the
  ones \<open>msp.go\<close> reads and writes, typed as section 3 of the spec describes them.
  \<open>Revoke\<close> converts its request with \<open>mspapi.RevocationRequest(*request)\<close>, which Go
  accepts only for identical underlying types: one record serves both.
\<close>

type_synonym byte = "8 word"

record Attribute =
  Attribute_Name :: string
  Attribute_Key :: string
  Attribute_Value :: string

record mspapi_Attribute =
  mspapi_Attribute_Name :: string
  mspapi_Attribute_Key :: string
  mspapi_Attribute_Value :: string

record RegistrationRequest =
  Reg_Name :: string
  Reg_Type :: string
  Reg_MaxEnrollments :: int
  Reg_Affiliation :: string
  Reg_Attributes :: "Attribute list"
  Reg_CAName :: string
  Reg_Secret :: string

record mspapi_RegistrationRequest =
  mspapi_Reg_Name :: string
  mspapi_Reg_Type :: string
  mspapi_Reg_MaxEnrollments :: int
  mspapi_Reg_Affiliation :: string
  mspapi_Reg_Attributes :: "mspapi_Attribute list"
  mspapi_Reg_CAName :: string
  mspapi_Reg_Secret :: string

record RevocationRequest =
  Rev_Name :: string
  Rev_Serial :: string
  Rev_AKI :: string
  Rev_Reason :: string
  Rev_CAName :: string

record RevokedCert =
  Serial :: string
  AKI :: string

record mspapi_RevokedCert =
  mspapi_Serial :: string
  mspapi_AKI :: string

record RevocationResponse =
  RevokedCerts :: "RevokedCert list"
  CRL :: "byte list"

record mspapi_RevocationResponse =
  mspapi_RevokedCerts :: "mspapi_RevokedCert list"
  mspapi_CRL :: "byte list"

datatype core_Key = KeyHandle nat

record User =
  User_Name :: string
  User_MspID :: string
  User_PrivateKey :: core_Key
  User_EnrollmentCertificate :: "byte list"

record SigningIdentity =
  MspID :: string
  PrivateKey :: core_Key
  EnrollmentCert :: "byte list"

subsection \<open>Collaborators\<close>

text \<open>
  Modelled from the spec: the interfaces \<open>mspapi.CAClient\<close>, \<open>mspctx.IdentityManager\<close> and
  \<open>context.Client\<close> and the function \<open>msp.NewCAClient\<close> are declared outside \<open>msp.go\<close>;
  section 6 of the spec gives their contracts. \<open>msp_NewCAClient\<close> stands for
  \<open>msp.NewCAClient(orgName, identityManager, ctx.UserStore(), ctx.CryptoSuite(),
  ctx.Config())\<close>, whose last three arguments are handles of the same context.
\<close>

record CAClient =
  ca_Enroll :: "string \<Rightarrow> string \<Rightarrow> error option"
  ca_Reenroll :: "string \<Rightarrow> error option"
  ca_Register :: "mspapi_RegistrationRequest \<Rightarrow> string \<times> error option"
  ca_Revoke :: "RevocationRequest \<Rightarrow> error + mspapi_RevocationResponse"

record IdentityManager =
  im_GetUser :: "string \<Rightarrow> error + User"

record ClientConfig =
  Organization :: string

record context_Client =
  Config_Client :: "error + ClientConfig"
  IdentityManager :: "string \<Rightarrow> IdentityManager option \<times> bool"
  msp_NewCAClient :: "string \<Rightarrow> IdentityManager option \<Rightarrow> error + CAClient"

text \<open>\<open>context.ClientProvider\<close> is called once, without arguments: it is its answer.\<close>

type_synonym context_ClientProvider = "error + context_Client"

text \<open>The calls that leave \<open>msp.go\<close>, with their arguments.\<close>

datatype call =
    Call_clientProvider
  | Call_ClientOption nat
  | Call_Config_Client
  | Call_IdentityManager string
  | Call_NewCAClient string
  | Call_EnrollmentOption nat
  | Call_ca_Enroll string string
  | Call_ca_Reenroll string
  | Call_ca_Register mspapi_RegistrationRequest
  | Call_ca_Revoke RevocationRequest
  | Call_im_GetUser string

subsection \<open>Construction\<close>

record MSP =
  orgName :: string
  ctx :: context_Client

text \<open>
  \<open>type ClientOption func(*MSP) error\<close>: an option may write to the facade it is given
  and returns an error or \<open>nil\<close>.
\<close>

type_synonym ClientOption = "MSP \<Rightarrow> MSP \<times> error option"

definition WithOrg :: "string \<Rightarrow> ClientOption" where
  "WithOrg orgName' = (\<lambda>msp. (msp\<lparr>orgName := orgName'\<rparr>, None))"

text \<open>
  The loop \<open>for _, param := range opts\<close> of \<open>New\<close>; \<open>i\<close> is the position of \<open>param\<close> in
  \<open>opts\<close>. \<open>Inl\<close> is the error \<open>New\<close> returns from inside the loop.
\<close>

fun New_opts :: "ClientOption list \<Rightarrow> nat \<Rightarrow> MSP \<Rightarrow> call list \<Rightarrow> (error + MSP) \<times> call list" where
  "New_opts [] i msp t = (Inr msp, t)"
| "New_opts (param # opts) i msp t =
     (case param msp of
        (msp', Some err) \<Rightarrow>
          (Inl (WithMessage err ''failed to create MSP''), t @ [Call_ClientOption i])
      | (msp', None) \<Rightarrow> New_opts opts (Suc i) msp' (t @ [Call_ClientOption i]))"

definition New ::
  "context_ClientProvider \<Rightarrow> ClientOption list \<Rightarrow> call list \<Rightarrow>
     (MSP option \<times> error option) \<times> call list" where
  "New clientProvider opts t =
     (case clientProvider of
        Inl err \<Rightarrow>
          ((None, Some (WithMessage err ''failed to create MSP'')), t @ [Call_clientProvider])
      | Inr cx \<Rightarrow>
          (case New_opts opts 0 \<lparr>orgName = [], ctx = cx\<rparr> (t @ [Call_clientProvider]) of
             (Inl e, t') \<Rightarrow> ((None, Some e), t')
           | (Inr msp, t') \<Rightarrow>
               if orgName msp = [] then
                 (case Config_Client cx of
                    Inl err \<Rightarrow>
                      ((None, Some (WithMessage err ''failed to create MSP'')),
                       t' @ [Call_Config_Client])
                  | Inr clientConfig \<Rightarrow>
                      ((Some (msp\<lparr>orgName := Organization clientConfig\<rparr>), None),
                       t' @ [Call_Config_Client]))
               else ((Some msp, None), t')))"

subsection \<open>Resolving the CA client\<close>

text \<open>
  \<open>fmt.Errorf("identity manager not found for organization '%s", orgName)\<close>: the format
  opens a quote before the name and does not close it. \<open>CHR 0x27\<close> is that quote.
\<close>

definition newCAClient ::
  "context_Client \<Rightarrow> string \<Rightarrow> call list \<Rightarrow> (CAClient option \<times> error option) \<times> call list" where
  "newCAClient cx orgName' t =
     (case IdentityManager cx orgName' of
        (identityManager, ok) \<Rightarrow>
          if \<not> ok then
            ((None, Some (Errorf (''identity manager not found for organization ''
                                   @ CHR 0x27 # orgName'))),
             t @ [Call_IdentityManager orgName'])
          else
            (case msp_NewCAClient cx orgName' identityManager of
               Inl err \<Rightarrow>
                 ((None, Some (WithMessage err ''failed to create CA MSP'')),
                  t @ [Call_IdentityManager orgName', Call_NewCAClient orgName'])
             | Inr caClient \<Rightarrow>
                 ((Some caClient, None),
                  t @ [Call_IdentityManager orgName', Call_NewCAClient orgName'])))"

text \<open>The error of \<open>newCAClient\<close> for an organization without identity manager.\<close>

abbreviation CAClientUnavailable :: "string \<Rightarrow> error" where
  "CAClientUnavailable orgName' \<equiv>
     Errorf (''identity manager not found for organization '' @ CHR 0x27 # orgName')"

subsection \<open>Enrollment\<close>

record enrollmentOptions =
  secret :: string

type_synonym EnrollmentOption = "enrollmentOptions \<Rightarrow> enrollmentOptions \<times> error option"

definition WithSecret :: "string \<Rightarrow> EnrollmentOption" where
  "WithSecret secret' = (\<lambda>o'. (o'\<lparr>secret := secret'\<rparr>, None))"

text \<open>The loop over \<open>opts\<close> in \<open>Enroll\<close>; \<open>Inl\<close> is the error returned from inside it.\<close>

fun Enroll_opts ::
  "EnrollmentOption list \<Rightarrow> nat \<Rightarrow> enrollmentOptions \<Rightarrow> call list \<Rightarrow>
     (error + enrollmentOptions) \<times> call list" where
  "Enroll_opts [] i eo t = (Inr eo, t)"
| "Enroll_opts (param # opts) i eo t =
     (case param eo of
        (eo', Some err) \<Rightarrow>
          (Inl (WithMessage err ''failed to enroll''), t @ [Call_EnrollmentOption i])
      | (eo', None) \<Rightarrow> Enroll_opts opts (Suc i) eo' (t @ [Call_EnrollmentOption i]))"

text \<open>
  The methods have the receiver \<open>c *MSP\<close>: each takes the facade and returns it as the call
  leaves it, beside the outcome and the calls made.
\<close>

definition Enroll ::
  "MSP \<Rightarrow> string \<Rightarrow> EnrollmentOption list \<Rightarrow> call list \<Rightarrow>
     error option outcome \<times> MSP \<times> call list" where
  "Enroll c enrollmentID opts t =
     (case Enroll_opts opts 0 \<lparr>secret = []\<rparr> t of
        (Inl e, t') \<Rightarrow> (Returns (Some e), c, t')
      | (Inr eo, t') \<Rightarrow>
          (case newCAClient (ctx c) (orgName c) t' of
             ((_, Some err), t'') \<Rightarrow> (Returns (Some err), c, t'')
           | ((None, None), t'') \<Rightarrow> (Panics, c, t'')
           | ((Some ca, None), t'') \<Rightarrow>
               (Returns (ca_Enroll ca enrollmentID (secret eo)), c,
                t'' @ [Call_ca_Enroll enrollmentID (secret eo)])))"

definition Reenroll ::
  "MSP \<Rightarrow> string \<Rightarrow> call list \<Rightarrow> error option outcome \<times> MSP \<times> call list" where
  "Reenroll c enrollmentID t =
     (case newCAClient (ctx c) (orgName c) t of
        ((_, Some err), t') \<Rightarrow> (Returns (Some err), c, t')
      | ((None, None), t') \<Rightarrow> (Panics, c, t')
      | ((Some ca, None), t') \<Rightarrow>
          (Returns (ca_Reenroll ca enrollmentID), c, t' @ [Call_ca_Reenroll enrollmentID]))"

subsection \<open>Registration and revocation\<close>

text \<open>
  \<open>Register\<close> appends one \<open>mspapi.Attribute\<close> per attribute of the request to the slice
  \<open>a\<close>, then builds \<open>r\<close> from six fields of the request. The literal of \<open>r\<close> has no
  \<open>Attributes\<close> field, so Go gives it the zero value, the \<open>nil\<close> slice; \<open>a\<close> is not read
  again. The request is a pointer: \<open>None\<close> is \<open>nil\<close>, read first by the loop.
\<close>

definition Register ::
  "MSP \<Rightarrow> RegistrationRequest option \<Rightarrow> call list \<Rightarrow>
     (string \<times> error option) outcome \<times> MSP \<times> call list" where
  "Register c request t =
     (case newCAClient (ctx c) (orgName c) t of
        ((_, Some err), t') \<Rightarrow> (Returns ([], Some err), c, t')
      | ((ca, None), t') \<Rightarrow>
          (case request of
             None \<Rightarrow> (Panics, c, t')
           | Some req \<Rightarrow>
               (let a = foldl (\<lambda>a x. a @ [\<lparr>mspapi_Attribute_Name = Attribute_Name x,
                                              mspapi_Attribute_Key = Attribute_Key x,
                                              mspapi_Attribute_Value = Attribute_Value x\<rparr>])
                          [] (Reg_Attributes req);
                    r = \<lparr>mspapi_Reg_Name = Reg_Name req,
                         mspapi_Reg_Type = Reg_Type req,
                         mspapi_Reg_MaxEnrollments = Reg_MaxEnrollments req,
                         mspapi_Reg_Affiliation = Reg_Affiliation req,
                         mspapi_Reg_Attributes = [],
                         mspapi_Reg_CAName = Reg_CAName req,
                         mspapi_Reg_Secret = Reg_Secret req\<rparr>
                in (case ca of
                      None \<Rightarrow> (Panics, c, t')
                    | Some ca' \<Rightarrow>
                        (Returns (ca_Register ca' r), c, t' @ [Call_ca_Register r])))))"

definition Revoke ::
  "MSP \<Rightarrow> RevocationRequest option \<Rightarrow> call list \<Rightarrow>
     (RevocationResponse option \<times> error option) outcome \<times> MSP \<times> call list" where
  "Revoke c request t =
     (case newCAClient (ctx c) (orgName c) t of
        ((_, Some err), t') \<Rightarrow> (Returns (None, Some err), c, t')
      | ((ca, None), t') \<Rightarrow>
          (case request of
             None \<Rightarrow> (Panics, c, t')
           | Some req \<Rightarrow>
               (case ca of
                  None \<Rightarrow> (Panics, c, t')
                | Some ca' \<Rightarrow>
                    (case ca_Revoke ca' req of
                       Inl err \<Rightarrow> (Returns (None, Some err), c, t' @ [Call_ca_Revoke req])
                     | Inr resp \<Rightarrow>
                         (let revokedCerts =
                                foldl (\<lambda>rc x. rc @ [\<lparr>Serial = mspapi_Serial x,
                                                       AKI = mspapi_AKI x\<rparr>])
                                  [] (mspapi_RevokedCerts resp)
                          in (Returns (Some \<lparr>RevokedCerts = revokedCerts,
                                               CRL = mspapi_CRL resp\<rparr>, None),
                              c, t' @ [Call_ca_Revoke req]))))))"

subsection \<open>Users and signing identities\<close>

text \<open>
  \<open>GetUser\<close> drops the second result of the lookup (\<open>im, _ := ...\<close>) and calls
  \<open>im.GetUser\<close>; on a \<open>nil\<close> interface that call panics.
\<close>

definition GetUser ::
  "MSP \<Rightarrow> string \<Rightarrow> call list \<Rightarrow> (User option \<times> error option) outcome \<times> MSP \<times> call list" where
  "GetUser c userName t =
     (case IdentityManager (ctx c) (orgName c) of
        (None, _) \<Rightarrow> (Panics, c, t @ [Call_IdentityManager (orgName c)])
      | (Some im, _) \<Rightarrow>
          (case im_GetUser im userName of
             Inl err \<Rightarrow>
               if err = mspctx_ErrUserNotFound then
                 (Returns (None, Some ErrUserNotFound), c,
                  t @ [Call_IdentityManager (orgName c), Call_im_GetUser userName])
               else
                 (Returns (None, Some err), c,
                  t @ [Call_IdentityManager (orgName c), Call_im_GetUser userName])
           | Inr user \<Rightarrow>
               (Returns (Some user, None), c,
                t @ [Call_IdentityManager (orgName c), Call_im_GetUser userName])))"

definition GetSigningIdentity ::
  "MSP \<Rightarrow> string \<Rightarrow> call list \<Rightarrow>
     (SigningIdentity option \<times> error option) outcome \<times> MSP \<times> call list" where
  "GetSigningIdentity c userName t =
     (case GetUser c userName t of
        (Panics, c', t') \<Rightarrow> (Panics, c', t')
      | (Returns (_, Some err), c', t') \<Rightarrow>
          if err = mspctx_ErrUserNotFound then (Returns (None, Some ErrUserNotFound), c', t')
          else (Returns (None, Some err), c', t')
      | (Returns (None, None), c', t') \<Rightarrow> (Panics, c', t')
      | (Returns (Some user, None), c', t') \<Rightarrow>
          (Returns (Some \<lparr>MspID = User_MspID user,
                           PrivateKey = User_PrivateKey user,
                           EnrollmentCert = User_EnrollmentCertificate user\<rparr>, None),
           c', t'))"

subsection \<open>Stub collaborators\<close>

text \<open>
  A session in which the organization \<open>Org1MSP\<close> is registered and knows the user
  \<open>alice\<close>, and no other organization is. The CA stub enrolls with the secret
  \<open>s3cr3t\<close> only and revokes one certificate of \<open>alice\<close>, none of \<open>nobody\<close>.
\<close>

definition stub_alice :: User where
  "stub_alice = \<lparr>User_Name = ''alice'', User_MspID = ''Org1MSP'',
                  User_PrivateKey = KeyHandle 7, User_EnrollmentCertificate = [48, 130]\<rparr>"

definition stub_im :: IdentityManager where
  "stub_im = \<lparr>im_GetUser = (\<lambda>userName.
       if userName = ''alice'' then Inr stub_alice
       else if userName = ''locked'' then Inl (Other ''store unavailable'')
       else Inl mspctx_ErrUserNotFound)\<rparr>"

definition stub_ca :: CAClient where
  "stub_ca = \<lparr>
     ca_Enroll = (\<lambda>enrollmentID secret'.
       if secret' = ''s3cr3t'' then None else Some (Other ''wrong secret'')),
     ca_Reenroll = (\<lambda>enrollmentID.
       if enrollmentID = [] then Some (Other ''empty enrollment ID'') else None),
     ca_Register = (\<lambda>r.
       (''secret-'' @ mspapi_Reg_Name r @ ''-'' @
          concat (map mspapi_Attribute_Name (mspapi_Reg_Attributes r)), None)),
     ca_Revoke = (\<lambda>req.
       if Rev_Name req = ''alice'' then
         Inr \<lparr>mspapi_RevokedCerts = [\<lparr>mspapi_Serial = ''01'', mspapi_AKI = ''ab''\<rparr>],
              mspapi_CRL = [1, 2]\<rparr>
       else if Rev_Name req = ''nobody'' then
         Inr \<lparr>mspapi_RevokedCerts = [], mspapi_CRL = [1]\<rparr>
       else Inl (Other ''revocation refused''))\<rparr>"

definition stub_ctx :: context_Client where
  "stub_ctx = \<lparr>
     Config_Client = Inr \<lparr>Organization = ''Org1MSP''\<rparr>,
     IdentityManager = (\<lambda>org. if org = ''Org1MSP'' then (Some stub_im, True) else (None, False)),
     msp_NewCAClient = (\<lambda>org im. Inr stub_ca)\<rparr>"

definition stub_msp :: MSP where
  "stub_msp = \<lparr>orgName = ''Org1MSP'', ctx = stub_ctx\<rparr>"

definition stub_msp_unregistered :: MSP where
  "stub_msp_unregistered = \<lparr>orgName = ''Org2MSP'', ctx = stub_ctx\<rparr>"

definition stub_failing_ClientOption :: ClientOption where
  "stub_failing_ClientOption = (\<lambda>msp. (msp, Some (Other ''bad option'')))"

definition stub_failing_EnrollmentOption :: EnrollmentOption where
  "stub_failing_EnrollmentOption = (\<lambda>o'. (o', Some (Other ''bad option'')))"

definition stub_request :: RegistrationRequest where
  "stub_request = \<lparr>Reg_Name = ''alice'', Reg_Type = ''client'', Reg_MaxEnrollments = 1,
     Reg_Affiliation = ''org1'',
     Reg_Attributes = [\<lparr>Attribute_Name = ''role'', Attribute_Key = ''k'',
                        Attribute_Value = ''admin''\<rparr>],
     Reg_CAName = ''ca1'', Reg_Secret = ''pw''\<rparr>"

definition stub_revocation :: "string \<Rightarrow> RevocationRequest" where
  "stub_revocation name = \<lparr>Rev_Name = name, Rev_Serial = [], Rev_AKI = [],
     Rev_Reason = [], Rev_CAName = ''ca1''\<rparr>"

section \<open>Properties\<close>

subsection \<open>The loops over options\<close>

lemma New_opts_append:
  "New_opts pre i msp t = (Inr msp', t') \<Longrightarrow>
     New_opts (pre @ post) i msp t = New_opts post (i + length pre) msp' t'"
  by (induction pre arbitrary: i msp t) (auto split: prod.splits option.splits)

lemma upt_shift: "i # [Suc i..<Suc (i + n)] = [i..<Suc (i + n)]"
  by (simp add: upt_conv_Cons)

lemma New_opts_calls:
  "New_opts pre i msp t = (Inr msp', t') \<Longrightarrow>
     t' = t @ map Call_ClientOption [i..<i + length pre]"
proof (induction pre arbitrary: i msp t)
  case Nil
  then show ?case by simp
next
  case (Cons param pre)
  obtain m e where p: "param msp = (m, e)" by (cases "param msp")
  show ?case
  proof (cases e)
    case None
    with Cons.prems p
    have "New_opts pre (Suc i) m (t @ [Call_ClientOption i]) = (Inr msp', t')" by simp
    from Cons.IH [OF this]
    have "t' = t @ Call_ClientOption i # map Call_ClientOption [Suc i..<Suc (i + length pre)]"
      by simp
    also have "Call_ClientOption i # map Call_ClientOption [Suc i..<Suc (i + length pre)] =
                 map Call_ClientOption (i # [Suc i..<Suc (i + length pre)])"
      by simp
    finally show ?thesis by (simp only: upt_shift length_Cons add_Suc_right)
  next
    case (Some err)
    with Cons.prems p show ?thesis by simp
  qed
qed

lemma New_opts_WithOrg:
  "New_opts (map WithOrg names) i msp t =
     (Inr (msp\<lparr>orgName := last (orgName msp # names)\<rparr>),
      t @ map Call_ClientOption [i..<i + length names])"
proof (induction names arbitrary: i msp t)
  case Nil
  then show ?case by simp
next
  case (Cons n names)
  have step: "New_opts (map WithOrg (n # names)) i msp t =
          New_opts (map WithOrg names) (Suc i) (msp\<lparr>orgName := n\<rparr>) (t @ [Call_ClientOption i])"
    by (simp add: WithOrg_def)
  have calls: "map Call_ClientOption [i..<i + length (n # names)] =
          Call_ClientOption i # map Call_ClientOption [Suc i..<Suc i + length names]"
    by (simp add: upt_conv_Cons del: upt_Suc)
  have "last (orgName (msp\<lparr>orgName := n\<rparr>) # names) = last (orgName msp # n # names)"
    by simp
  then show ?case
    unfolding step Cons.IH calls by simp
qed

subsection \<open>Resolution of the CA client\<close>

lemma newCAClient_not_ok:
  "\<not> snd (IdentityManager cx org) \<Longrightarrow>
     newCAClient cx org t =
       ((None, Some (Errorf (''identity manager not found for organization '' @ CHR 0x27 # org))),
        t @ [Call_IdentityManager org])"
  by (cases "IdentityManager cx org") (simp add: newCAClient_def)

lemma newCAClient_cases:
  "(\<exists>e ts. newCAClient cx org t = ((None, Some e), t @ Call_IdentityManager org # ts)) \<or>
   (\<exists>ca. newCAClient cx org t =
            ((Some ca, None), t @ [Call_IdentityManager org, Call_NewCAClient org]))"
  by (auto simp: newCAClient_def split: prod.splits sum.splits)

subsection \<open>Construction\<close>

text \<open>
  C4: when the options are \<open>WithOrg\<close> options and the last of them gives a non-empty
  name, \<open>New\<close> returns a facade with that name, and the calls it makes are the provider
  and the options: the client configuration is not consulted. When no option is given,
  the name of the facade is the \<open>Organization\<close> field of the session's client
  configuration. (\<open>New (Inr cx)\<close>: the provider has returned the session \<open>cx\<close>.)
\<close>

theorem New_resolves_orgName:
  "(names \<noteq> [] \<and> last names \<noteq> [] \<longrightarrow>
      New (Inr cx) (map WithOrg names) t =
        ((Some \<lparr>orgName = last names, ctx = cx\<rparr>, None),
         t @ Call_clientProvider # map Call_ClientOption [0..<length names]) \<and>
      Call_Config_Client \<notin> set (snd (New (Inr cx) (map WithOrg names) []))) \<and>
   (Config_Client cx = Inr clientConfig \<longrightarrow>
      New (Inr cx) [] t =
        ((Some \<lparr>orgName = Organization clientConfig, ctx = cx\<rparr>, None),
         t @ [Call_clientProvider, Call_Config_Client]))"
proof -
  have named: "New (Inr cx) (map WithOrg names) t =
        ((Some \<lparr>orgName = last names, ctx = cx\<rparr>, None),
         t @ Call_clientProvider # map Call_ClientOption [0..<length names])"
    if "names \<noteq> []" "last names \<noteq> []" for t
    using that by (simp add: New_def New_opts_WithOrg)
  have "Call_Config_Client \<notin> set (snd (New (Inr cx) (map WithOrg names) []))"
    if "names \<noteq> []" "last names \<noteq> []"
    using named [OF that, of "[]"] by auto
  moreover have "New (Inr cx) [] t =
        ((Some \<lparr>orgName = Organization clientConfig, ctx = cx\<rparr>, None),
         t @ [Call_clientProvider, Call_Config_Client])"
    if "Config_Client cx = Inr clientConfig"
    using that by (simp add: New_def)
  ultimately show ?thesis using named by blast
qed

text \<open>The theorem at the stub session, with the option \<open>WithOrg "Org9MSP"\<close> and without.\<close>

theorem New_resolves_orgName_witness:
  "[''Org9MSP''] \<noteq> [] \<and> last [''Org9MSP''] \<noteq> [] \<and>
   Config_Client stub_ctx = Inr \<lparr>Organization = ''Org1MSP''\<rparr> \<and>
   New (Inr stub_ctx) [WithOrg ''Org9MSP''] [] =
     ((Some \<lparr>orgName = ''Org9MSP'', ctx = stub_ctx\<rparr>, None),
      [Call_clientProvider, Call_ClientOption 0]) \<and>
   New (Inr stub_ctx) [] [] =
     ((Some \<lparr>orgName = ''Org1MSP'', ctx = stub_ctx\<rparr>, None),
      [Call_clientProvider, Call_Config_Client])"
proof -
  have cfg: "Config_Client stub_ctx = Inr \<lparr>Organization = ''Org1MSP''\<rparr>"
    by (simp add: stub_ctx_def)
  from New_resolves_orgName [of "[''Org9MSP'']" stub_ctx "[]" "\<lparr>Organization = ''Org1MSP''\<rparr>"] cfg
  show ?thesis by simp
qed

text \<open>
  C7: if the provider returns an error, \<open>New\<close> returns no facade and that error under the
  message "failed to create MSP", whatever the options are, and calls nothing but the
  provider. If the provider succeeds, the options \<open>pre\<close> succeed and the next option
  \<open>param\<close> returns an error, \<open>New\<close> returns no facade and that error under the same
  message; the options called are those up to \<open>param\<close>, none of \<open>post\<close>.
\<close>

theorem New_fails_fast:
  "(New (Inl err) opts t =
      ((None, Some (WithMessage err ''failed to create MSP'')), t @ [Call_clientProvider])) \<and>
   (New_opts pre 0 \<lparr>orgName = [], ctx = cx\<rparr> (t @ [Call_clientProvider]) = (Inr msp, t') \<and>
    snd (param msp) = Some err' \<longrightarrow>
      New (Inr cx) (pre @ param # post) t =
        ((None, Some (WithMessage err' ''failed to create MSP'')),
         t @ Call_clientProvider # map Call_ClientOption [0..<Suc (length pre)]))"
proof -
  have "New (Inr cx) (pre @ param # post) t =
        ((None, Some (WithMessage err' ''failed to create MSP'')),
         t @ Call_clientProvider # map Call_ClientOption [0..<Suc (length pre)])"
    if pre: "New_opts pre 0 \<lparr>orgName = [], ctx = cx\<rparr> (t @ [Call_clientProvider]) = (Inr msp, t')"
      and param: "snd (param msp) = Some err'"
  proof -
    obtain m where p: "param msp = (m, Some err')"
      using param by (cases "param msp") simp
    have t': "t' = (t @ [Call_clientProvider]) @ map Call_ClientOption [0..<0 + length pre]"
      by (rule New_opts_calls [OF pre])
    have "New_opts (pre @ param # post) 0 \<lparr>orgName = [], ctx = cx\<rparr> (t @ [Call_clientProvider]) =
            New_opts (param # post) (0 + length pre) msp t'"
      by (rule New_opts_append [OF pre])
    also have "\<dots> = (Inl (WithMessage err' ''failed to create MSP''),
                      t' @ [Call_ClientOption (length pre)])"
      using p by simp
    finally show ?thesis
      by (simp add: New_def t')
  qed
  moreover have "New (Inl err) opts t =
      ((None, Some (WithMessage err ''failed to create MSP'')), t @ [Call_clientProvider])"
    by (simp add: New_def)
  ultimately show ?thesis by blast
qed

text \<open>
  The theorem with a failing option between two \<open>WithOrg\<close> options, and with a failing
  provider.
\<close>

theorem New_fails_fast_witness:
  "New_opts [WithOrg ''Org1MSP''] 0 \<lparr>orgName = [], ctx = stub_ctx\<rparr> [Call_clientProvider] =
     (Inr stub_msp, [Call_clientProvider, Call_ClientOption 0]) \<and>
   snd (stub_failing_ClientOption stub_msp) = Some (Other ''bad option'') \<and>
   New (Inr stub_ctx) ([WithOrg ''Org1MSP''] @ stub_failing_ClientOption # [WithOrg ''Org2MSP'']) [] =
     ((None, Some (WithMessage (Other ''bad option'') ''failed to create MSP'')),
      [Call_clientProvider, Call_ClientOption 0, Call_ClientOption 1]) \<and>
   New (Inl (Other ''no session'')) [WithOrg ''Org1MSP''] [] =
     ((None, Some (WithMessage (Other ''no session'') ''failed to create MSP'')),
      [Call_clientProvider])"
proof -
  have pre: "New_opts [WithOrg ''Org1MSP''] 0 \<lparr>orgName = [], ctx = stub_ctx\<rparr> ([] @ [Call_clientProvider]) =
     (Inr stub_msp, [Call_clientProvider, Call_ClientOption 0])"
    by (simp add: WithOrg_def stub_msp_def)
  have param: "snd (stub_failing_ClientOption stub_msp) = Some (Other ''bad option'')"
    by (simp add: stub_failing_ClientOption_def)
  note inst = New_fails_fast [of "Other ''no session''" "[WithOrg ''Org1MSP'']" "[]"
      "[WithOrg ''Org1MSP'']" stub_ctx stub_msp "[Call_clientProvider, Call_ClientOption 0]"
      stub_failing_ClientOption "Other ''bad option''" "[WithOrg ''Org2MSP'']"]
  have provider: "New (Inl (Other ''no session'')) [WithOrg ''Org1MSP''] [] =
      ((None, Some (WithMessage (Other ''no session'') ''failed to create MSP'')),
       [] @ [Call_clientProvider])"
    using inst by blast
  have option: "New (Inr stub_ctx)
        ([WithOrg ''Org1MSP''] @ stub_failing_ClientOption # [WithOrg ''Org2MSP'']) [] =
      ((None, Some (WithMessage (Other ''bad option'') ''failed to create MSP'')),
       [] @ Call_clientProvider # map Call_ClientOption [0..<Suc (length [WithOrg ''Org1MSP''])])"
    using inst pre param by blast
  have "[0..<Suc (Suc 0)] = [0, Suc 0]"
    by (simp add: upt_conv_Cons)
  then show ?thesis
    using provider option pre param by simp
qed

text \<open>
  C10: \<open>New\<close> returns the same for the single option \<open>WithOrg ""\<close> as for no option;
  when the provider succeeds it goes on to read the client configuration, and takes the
  organization name from it when that succeeds.
\<close>

theorem WithOrg_empty_same_as_omitted:
  "fst (New clientProvider [WithOrg []] t) = fst (New clientProvider [] t) \<and>
   (clientProvider = Inr cx \<longrightarrow>
      snd (New clientProvider [WithOrg []] t) =
        t @ [Call_clientProvider, Call_ClientOption 0, Call_Config_Client] \<and>
      (\<forall>clientConfig. Config_Client cx = Inr clientConfig \<longrightarrow>
         fst (New clientProvider [WithOrg []] t) =
           (Some \<lparr>orgName = Organization clientConfig, ctx = cx\<rparr>, None)))"
  by (cases clientProvider) (auto simp: New_def WithOrg_def split: sum.splits)

text \<open>The theorem at the stub session, whose configuration names \<open>Org1MSP\<close>.\<close>

theorem WithOrg_empty_same_as_omitted_witness:
  "fst (New (Inr stub_ctx) [WithOrg []] []) = fst (New (Inr stub_ctx) [] []) \<and>
   Config_Client stub_ctx = Inr \<lparr>Organization = ''Org1MSP''\<rparr> \<and>
   snd (New (Inr stub_ctx) [WithOrg []] []) =
     [Call_clientProvider, Call_ClientOption 0, Call_Config_Client] \<and>
   fst (New (Inr stub_ctx) [WithOrg []] []) =
     (Some \<lparr>orgName = ''Org1MSP'', ctx = stub_ctx\<rparr>, None)"
proof -
  have cfg: "Config_Client stub_ctx = Inr \<lparr>Organization = ''Org1MSP''\<rparr>"
    by (simp add: stub_ctx_def)
  note inst = WithOrg_empty_same_as_omitted [of "Inr stub_ctx" "[]" stub_ctx]
  have same: "fst (New (Inr stub_ctx) [WithOrg []] []) = fst (New (Inr stub_ctx) [] [])"
    using inst by blast
  have calls: "snd (New (Inr stub_ctx) [WithOrg []] []) =
      [] @ [Call_clientProvider, Call_ClientOption 0, Call_Config_Client]"
    using inst by blast
  have org: "fst (New (Inr stub_ctx) [WithOrg []] []) =
      (Some \<lparr>orgName = Organization \<lparr>Organization = ''Org1MSP''\<rparr>, ctx = stub_ctx\<rparr>, None)"
    using inst cfg by blast
  show ?thesis
    using same calls org cfg by simp
qed

subsection \<open>Users\<close>

lemma GetUser_found_not:
  "IdentityManager (ctx c) (orgName c) = (Some im, ok) \<Longrightarrow>
   im_GetUser im userName = Inl mspctx_ErrUserNotFound \<Longrightarrow>
     GetUser c userName t =
       (Returns (None, Some ErrUserNotFound), c,
        t @ [Call_IdentityManager (orgName c), Call_im_GetUser userName])"
  by (simp add: GetUser_def)

lemma GetUser_no_sentinel:
  "fst (GetUser c userName t) \<noteq> Returns (user, Some mspctx_ErrUserNotFound)"
  by (simp add: GetUser_def split: prod.splits option.splits sum.splits)

lemma GetSigningIdentity_no_sentinel:
  "fst (GetSigningIdentity c userName t) \<noteq> Returns (identity, Some mspctx_ErrUserNotFound)"
  by (simp add: GetSigningIdentity_def split: prod.splits option.splits outcome.splits)

text \<open>
  C1: when the identity manager of the facade's organization answers \<open>GetUser\<close> with the
  sentinel \<open>mspctx.ErrUserNotFound\<close>, \<open>GetUser\<close> and \<open>GetSigningIdentity\<close> both return
  the facade's own \<open>ErrUserNotFound\<close>; and no call of either, on any facade, user name
  and collaborators, returns the collaborator's sentinel as its error.
\<close>

theorem user_not_found_is_translated:
  "(IdentityManager (ctx c) (orgName c) = (Some im, ok) \<and>
    im_GetUser im userName = Inl mspctx_ErrUserNotFound \<longrightarrow>
      fst (GetUser c userName t) = Returns (None, Some ErrUserNotFound) \<and>
      fst (GetSigningIdentity c userName t) = Returns (None, Some ErrUserNotFound)) \<and>
   fst (GetUser c' userName' t') \<noteq> Returns (user, Some mspctx_ErrUserNotFound) \<and>
   fst (GetSigningIdentity c' userName' t') \<noteq> Returns (identity, Some mspctx_ErrUserNotFound)"
proof -
  have "fst (GetUser c userName t) = Returns (None, Some ErrUserNotFound) \<and>
        fst (GetSigningIdentity c userName t) = Returns (None, Some ErrUserNotFound)"
    if "IdentityManager (ctx c) (orgName c) = (Some im, ok)"
      and "im_GetUser im userName = Inl mspctx_ErrUserNotFound"
    using GetUser_found_not [OF that, of t] by (simp add: GetSigningIdentity_def)
  then show ?thesis
    using GetUser_no_sentinel GetSigningIdentity_no_sentinel by blast
qed

text \<open>The theorem for the user \<open>unknown\<close>, whom the stub identity manager does not have.\<close>

theorem user_not_found_is_translated_witness:
  "IdentityManager (ctx stub_msp) (orgName stub_msp) = (Some stub_im, True) \<and>
   im_GetUser stub_im ''unknown'' = Inl mspctx_ErrUserNotFound \<and>
   fst (GetUser stub_msp ''unknown'' []) = Returns (None, Some ErrUserNotFound) \<and>
   fst (GetSigningIdentity stub_msp ''unknown'' []) = Returns (None, Some ErrUserNotFound)"
proof -
  have im: "IdentityManager (ctx stub_msp) (orgName stub_msp) = (Some stub_im, True)"
    by (simp add: stub_msp_def stub_ctx_def)
  have unknown: "im_GetUser stub_im ''unknown'' = Inl mspctx_ErrUserNotFound"
    by (simp add: stub_im_def)
  from user_not_found_is_translated [of stub_msp stub_im True "''unknown''" "[]"] im unknown
  show ?thesis by blast
qed

subsection \<open>The facade is not written\<close>

lemma Enroll_facade: "fst (snd (Enroll c enrollmentID opts t)) = c"
  by (simp add: Enroll_def split: prod.splits option.splits sum.splits)

lemma Reenroll_facade: "fst (snd (Reenroll c enrollmentID t)) = c"
  by (simp add: Reenroll_def split: prod.splits option.splits)

lemma Register_facade: "fst (snd (Register c request t)) = c"
  by (simp add: Register_def Let_def split: prod.splits option.splits)

lemma Revoke_facade: "fst (snd (Revoke c request t)) = c"
  by (simp add: Revoke_def Let_def split: prod.splits option.splits sum.splits)

lemma GetUser_facade: "fst (snd (GetUser c userName t)) = c"
  by (simp add: GetUser_def split: prod.splits option.splits sum.splits)

lemma GetSigningIdentity_facade: "fst (snd (GetSigningIdentity c userName t)) = c"
proof -
  obtain r c' t' where g: "GetUser c userName t = (r, c', t')"
    by (cases "GetUser c userName t") auto
  with GetUser_facade [of c userName t] have "c' = c" by simp
  with g show ?thesis
    by (simp add: GetSigningIdentity_def split: outcome.splits prod.splits option.splits)
qed

text \<open>
  C8: after each of the six operations, whatever it returns and also when it panics, the
  facade (its organization name and its context) is the facade the operation was called
  on.
\<close>

theorem operations_leave_facade_unchanged:
  "fst (snd (Enroll c enrollmentID opts t)) = c \<and>
   fst (snd (Reenroll c enrollmentID t)) = c \<and>
   fst (snd (Register c registration t)) = c \<and>
   fst (snd (Revoke c revocation t)) = c \<and>
   fst (snd (GetSigningIdentity c userName t)) = c \<and>
   fst (snd (GetUser c userName t)) = c"
  by (simp only: Enroll_facade Reenroll_facade Register_facade Revoke_facade
      GetSigningIdentity_facade GetUser_facade simp_thms)

subsection \<open>Registration\<close>

text \<open>
  What \<open>Register\<close> hands to a resolved CA client, for every request: the six scalar
  fields of the caller's request and an empty attribute list.
\<close>

lemma Register_resolved:
  "newCAClient (ctx c) (orgName c) t = ((Some ca, None), t') \<Longrightarrow>
     Register c (Some req) t =
       (Returns (ca_Register ca
                   \<lparr>mspapi_Reg_Name = Reg_Name req, mspapi_Reg_Type = Reg_Type req,
                    mspapi_Reg_MaxEnrollments = Reg_MaxEnrollments req,
                    mspapi_Reg_Affiliation = Reg_Affiliation req,
                    mspapi_Reg_Attributes = [], mspapi_Reg_CAName = Reg_CAName req,
                    mspapi_Reg_Secret = Reg_Secret req\<rparr>),
        c,
        t' @ [Call_ca_Register
                \<lparr>mspapi_Reg_Name = Reg_Name req, mspapi_Reg_Type = Reg_Type req,
                 mspapi_Reg_MaxEnrollments = Reg_MaxEnrollments req,
                 mspapi_Reg_Affiliation = Reg_Affiliation req,
                 mspapi_Reg_Attributes = [], mspapi_Reg_CAName = Reg_CAName req,
                 mspapi_Reg_Secret = Reg_Secret req\<rparr>])"
  by (simp add: Register_def Let_def)

text \<open>
  C3 asks that the request \<open>Register\<close> hands to the CA client carries the attributes
  of the caller's request, in order. For a request with one attribute, the request that
  reaches \<open>ca.Register\<close> has none (the six other fields are the caller's): the stub CA
  appends the attribute names it receives to the secret, and appends nothing.
\<close>

theorem Register_drops_attributes:
  "length (Reg_Attributes stub_request) = 1 \<and>
   Register stub_msp (Some stub_request) [] =
     (Returns (''secret-alice-'', None), stub_msp,
      [Call_IdentityManager ''Org1MSP'', Call_NewCAClient ''Org1MSP'',
       Call_ca_Register
         \<lparr>mspapi_Reg_Name = ''alice'', mspapi_Reg_Type = ''client'',
          mspapi_Reg_MaxEnrollments = 1, mspapi_Reg_Affiliation = ''org1'',
          mspapi_Reg_Attributes = [], mspapi_Reg_CAName = ''ca1'',
          mspapi_Reg_Secret = ''pw''\<rparr>])"
  by (simp add: Register_def newCAClient_def stub_msp_def stub_ctx_def stub_ca_def
      stub_request_def Let_def)

subsection \<open>Enrollment\<close>

lemma Enroll_forwards:
  "Enroll_opts opts 0 \<lparr>secret = []\<rparr> t = (Inr eo, t') \<Longrightarrow>
   newCAClient (ctx c) (orgName c) t' = ((Some ca, None), t'') \<Longrightarrow>
     Enroll c enrollmentID opts t =
       (Returns (ca_Enroll ca enrollmentID (secret eo)), c,
        t'' @ [Call_ca_Enroll enrollmentID (secret eo)])"
  by (simp add: Enroll_def)

lemma Reenroll_forwards:
  "newCAClient (ctx c) (orgName c) t = ((Some ca, None), t') \<Longrightarrow>
     Reenroll c enrollmentID t =
       (Returns (ca_Reenroll ca enrollmentID), c, t' @ [Call_ca_Reenroll enrollmentID])"
  by (simp add: Reenroll_def)

lemma Enroll_option_error:
  "Enroll_opts opts 0 \<lparr>secret = []\<rparr> t = (Inl e, t') \<Longrightarrow>
     Enroll c enrollmentID opts t = (Returns (Some e), c, t')"
  by (simp add: Enroll_def)

lemma Enroll_unresolved:
  "Enroll_opts opts 0 \<lparr>secret = []\<rparr> t = (Inr eo, t') \<Longrightarrow>
   newCAClient (ctx c) (orgName c) t' = ((None, Some e), t'') \<Longrightarrow>
     Enroll c enrollmentID opts t = (Returns (Some e), c, t'')"
  by (simp add: Enroll_def)

lemma Reenroll_unresolved:
  "newCAClient (ctx c) (orgName c) t = ((None, Some e), t') \<Longrightarrow>
     Reenroll c enrollmentID t = (Returns (Some e), c, t')"
  by (simp add: Reenroll_def)

text \<open>
  C6: when the enrollment options have been applied and the CA client resolved, so that
  \<open>ca.Enroll\<close> is called, and that call returns an error, \<open>Enroll\<close> returns this very
  error: not wrapped in a message, not replaced by another.
\<close>

theorem Enroll_error_unchanged:
  "Enroll_opts opts 0 \<lparr>secret = []\<rparr> t = (Inr eo, t') \<Longrightarrow>
   newCAClient (ctx c) (orgName c) t' = ((Some ca, None), t'') \<Longrightarrow>
   ca_Enroll ca enrollmentID (secret eo) = Some err \<Longrightarrow>
     Enroll c enrollmentID opts t =
       (Returns (Some err), c, t'' @ [Call_ca_Enroll enrollmentID (secret eo)])"
  using Enroll_forwards [of opts t eo t' c ca t'' enrollmentID] by simp

text \<open>
  The theorem at the stub CA, which rejects the secret \<open>guess\<close> with the error
  \<open>wrong secret\<close>.
\<close>

theorem Enroll_error_unchanged_witness:
  "Enroll_opts [WithSecret ''guess''] 0 \<lparr>secret = []\<rparr> [] =
     (Inr \<lparr>secret = ''guess''\<rparr>, [Call_EnrollmentOption 0]) \<and>
   newCAClient (ctx stub_msp) (orgName stub_msp) [Call_EnrollmentOption 0] =
     ((Some stub_ca, None),
      [Call_EnrollmentOption 0, Call_IdentityManager ''Org1MSP'', Call_NewCAClient ''Org1MSP'']) \<and>
   ca_Enroll stub_ca ''alice'' ''guess'' = Some (Other ''wrong secret'') \<and>
   Enroll stub_msp ''alice'' [WithSecret ''guess''] [] =
     (Returns (Some (Other ''wrong secret'')), stub_msp,
      [Call_EnrollmentOption 0, Call_IdentityManager ''Org1MSP'', Call_NewCAClient ''Org1MSP'',
       Call_ca_Enroll ''alice'' ''guess''])"
proof -
  have opts: "Enroll_opts [WithSecret ''guess''] 0 \<lparr>secret = []\<rparr> [] =
      (Inr \<lparr>secret = ''guess''\<rparr>, [Call_EnrollmentOption 0])"
    by (simp add: WithSecret_def)
  have ca: "newCAClient (ctx stub_msp) (orgName stub_msp) [Call_EnrollmentOption 0] =
      ((Some stub_ca, None),
       [Call_EnrollmentOption 0, Call_IdentityManager ''Org1MSP'', Call_NewCAClient ''Org1MSP''])"
    by (simp add: newCAClient_def stub_msp_def stub_ctx_def)
  have err: "ca_Enroll stub_ca ''alice'' (secret \<lparr>secret = ''guess''\<rparr>) =
      Some (Other ''wrong secret'')"
    by (simp add: stub_ca_def)
  from Enroll_error_unchanged [OF opts ca err] opts ca err
  show ?thesis by simp
qed

text \<open>
  C9: neither \<open>Enroll\<close> nor \<open>Reenroll\<close> looks at the enrollment ID. Once the CA client
  is resolved (for \<open>Enroll\<close>, once the options are applied as well), every ID, the empty
  one included, is handed to the CA client as it is and the CA client's answer is
  returned. In general, for a given facade and options, either every ID is forwarded to
  one and the same CA client, or the operation returns one and the same result for
  every ID: a failure of the facade never depends on the ID.
\<close>

theorem enrollmentID_is_not_validated:
  "(Enroll_opts opts 0 \<lparr>secret = []\<rparr> t = (Inr eo, t') \<and>
    newCAClient (ctx c) (orgName c) t' = ((Some ca, None), t'') \<longrightarrow>
      (\<forall>enrollmentID. Enroll c enrollmentID opts t =
         (Returns (ca_Enroll ca enrollmentID (secret eo)), c,
          t'' @ [Call_ca_Enroll enrollmentID (secret eo)]))) \<and>
   (newCAClient (ctx c) (orgName c) t = ((Some ca', None), t1) \<longrightarrow>
      (\<forall>enrollmentID. Reenroll c enrollmentID t =
         (Returns (ca_Reenroll ca' enrollmentID), c, t1 @ [Call_ca_Reenroll enrollmentID]))) \<and>
   ((\<exists>(ca::CAClient) (eo::enrollmentOptions) t'. \<forall>enrollmentID. Enroll c enrollmentID opts t =
         (Returns (ca_Enroll ca enrollmentID (secret eo)), c,
          t' @ [Call_ca_Enroll enrollmentID (secret eo)])) \<or>
    (\<exists>r. \<forall>enrollmentID. Enroll c enrollmentID opts t = r)) \<and>
   ((\<exists>(ca::CAClient) t'. \<forall>enrollmentID. Reenroll c enrollmentID t =
         (Returns (ca_Reenroll ca enrollmentID), c, t' @ [Call_ca_Reenroll enrollmentID])) \<or>
    (\<exists>r. \<forall>enrollmentID. Reenroll c enrollmentID t = r))"
proof -
  have enroll: "(\<exists>(ca::CAClient) (eo::enrollmentOptions) t'. \<forall>enrollmentID. Enroll c enrollmentID opts t =
         (Returns (ca_Enroll ca enrollmentID (secret eo)), c,
          t' @ [Call_ca_Enroll enrollmentID (secret eo)])) \<or>
    (\<exists>r. \<forall>enrollmentID. Enroll c enrollmentID opts t = r)"
  proof -
    obtain r0 t0 where o: "Enroll_opts opts 0 \<lparr>secret = []\<rparr> t = (r0, t0)"
      by (cases "Enroll_opts opts 0 \<lparr>secret = []\<rparr> t")
    show ?thesis
    proof (cases r0)
      case (Inl e)
      with o have "\<forall>enrollmentID. Enroll c enrollmentID opts t = (Returns (Some e), c, t0)"
        by (simp add: Enroll_option_error)
      then show ?thesis by blast
    next
      case (Inr eo0)
      from newCAClient_cases [of "ctx c" "orgName c" t0] show ?thesis
      proof
        assume "\<exists>e ts. newCAClient (ctx c) (orgName c) t0 =
                  ((None, Some e), t0 @ Call_IdentityManager (orgName c) # ts)"
        then obtain e ts where "newCAClient (ctx c) (orgName c) t0 =
                  ((None, Some e), t0 @ Call_IdentityManager (orgName c) # ts)"
          by blast
        with o Inr have "\<forall>enrollmentID. Enroll c enrollmentID opts t =
            (Returns (Some e), c, t0 @ Call_IdentityManager (orgName c) # ts)"
          by (simp add: Enroll_unresolved)
        then show ?thesis by blast
      next
        assume "\<exists>ca. newCAClient (ctx c) (orgName c) t0 =
            ((Some ca, None), t0 @ [Call_IdentityManager (orgName c), Call_NewCAClient (orgName c)])"
        then obtain ca0 where "newCAClient (ctx c) (orgName c) t0 =
            ((Some ca0, None), t0 @ [Call_IdentityManager (orgName c), Call_NewCAClient (orgName c)])"
          by blast
        with o Inr have "\<forall>enrollmentID. Enroll c enrollmentID opts t =
            (Returns (ca_Enroll ca0 enrollmentID (secret eo0)), c,
             (t0 @ [Call_IdentityManager (orgName c), Call_NewCAClient (orgName c)]) @
               [Call_ca_Enroll enrollmentID (secret eo0)])"
          by (simp add: Enroll_forwards)
        then have "\<exists>(eo::enrollmentOptions) t'. \<forall>enrollmentID. Enroll c enrollmentID opts t =
            (Returns (ca_Enroll ca0 enrollmentID (secret eo)), c,
             t' @ [Call_ca_Enroll enrollmentID (secret eo)])"
          by blast
        then show ?thesis by blast
      qed
    qed
  qed
  have reenroll: "(\<exists>(ca::CAClient) t'. \<forall>enrollmentID. Reenroll c enrollmentID t =
         (Returns (ca_Reenroll ca enrollmentID), c, t' @ [Call_ca_Reenroll enrollmentID])) \<or>
    (\<exists>r. \<forall>enrollmentID. Reenroll c enrollmentID t = r)"
  proof -
    from newCAClient_cases [of "ctx c" "orgName c" t] show ?thesis
    proof
      assume "\<exists>e ts. newCAClient (ctx c) (orgName c) t =
                ((None, Some e), t @ Call_IdentityManager (orgName c) # ts)"
      then obtain e ts where "newCAClient (ctx c) (orgName c) t =
                ((None, Some e), t @ Call_IdentityManager (orgName c) # ts)"
        by blast
      then have "\<forall>enrollmentID. Reenroll c enrollmentID t =
          (Returns (Some e), c, t @ Call_IdentityManager (orgName c) # ts)"
        by (simp add: Reenroll_unresolved)
      then show ?thesis by blast
    next
      assume "\<exists>ca. newCAClient (ctx c) (orgName c) t =
          ((Some ca, None), t @ [Call_IdentityManager (orgName c), Call_NewCAClient (orgName c)])"
      then obtain ca0 where "newCAClient (ctx c) (orgName c) t =
          ((Some ca0, None), t @ [Call_IdentityManager (orgName c), Call_NewCAClient (orgName c)])"
        by blast
      then have "\<forall>enrollmentID. Reenroll c enrollmentID t =
          (Returns (ca_Reenroll ca0 enrollmentID), c,
           (t @ [Call_IdentityManager (orgName c), Call_NewCAClient (orgName c)]) @
             [Call_ca_Reenroll enrollmentID])"
        by (simp add: Reenroll_forwards)
      then have "\<exists>t'. \<forall>enrollmentID. Reenroll c enrollmentID t =
          (Returns (ca_Reenroll ca0 enrollmentID), c, t' @ [Call_ca_Reenroll enrollmentID])"
        by blast
      then show ?thesis by blast
    qed
  qed
  show ?thesis
    using enroll reenroll Enroll_forwards Reenroll_forwards by blast
qed

text \<open>
  The theorem for the empty enrollment ID: it reaches the stub CA, which is the one to
  answer (it refuses the empty secret, and an empty ID on re-enrollment).
\<close>

theorem enrollmentID_is_not_validated_witness:
  "Enroll_opts [] 0 \<lparr>secret = []\<rparr> [] = (Inr \<lparr>secret = []\<rparr>, []) \<and>
   newCAClient (ctx stub_msp) (orgName stub_msp) [] =
     ((Some stub_ca, None), [Call_IdentityManager ''Org1MSP'', Call_NewCAClient ''Org1MSP'']) \<and>
   Enroll stub_msp [] [] [] =
     (Returns (Some (Other ''wrong secret'')), stub_msp,
      [Call_IdentityManager ''Org1MSP'', Call_NewCAClient ''Org1MSP'', Call_ca_Enroll [] []]) \<and>
   Reenroll stub_msp [] [] =
     (Returns (Some (Other ''empty enrollment ID'')), stub_msp,
      [Call_IdentityManager ''Org1MSP'', Call_NewCAClient ''Org1MSP'', Call_ca_Reenroll []])"
proof -
  have opts: "Enroll_opts [] 0 \<lparr>secret = []\<rparr> [] = (Inr \<lparr>secret = []\<rparr>, [])"
    by simp
  have ca: "newCAClient (ctx stub_msp) (orgName stub_msp) [] =
      ((Some stub_ca, None), [Call_IdentityManager ''Org1MSP'', Call_NewCAClient ''Org1MSP''])"
    by (simp add: newCAClient_def stub_msp_def stub_ctx_def)
  note inst = enrollmentID_is_not_validated [of "[]" "[]" "\<lparr>secret = []\<rparr>" "[]" stub_msp
      stub_ca "[Call_IdentityManager ''Org1MSP'', Call_NewCAClient ''Org1MSP'']" stub_ca
      "[Call_IdentityManager ''Org1MSP'', Call_NewCAClient ''Org1MSP'']"]
  have e: "\<forall>enrollmentID. Enroll stub_msp enrollmentID [] [] =
      (Returns (ca_Enroll stub_ca enrollmentID (secret \<lparr>secret = []\<rparr>)), stub_msp,
       [Call_IdentityManager ''Org1MSP'', Call_NewCAClient ''Org1MSP''] @
         [Call_ca_Enroll enrollmentID (secret \<lparr>secret = []\<rparr>)])"
    using inst opts ca by blast
  have r: "\<forall>enrollmentID. Reenroll stub_msp enrollmentID [] =
      (Returns (ca_Reenroll stub_ca enrollmentID), stub_msp,
       [Call_IdentityManager ''Org1MSP'', Call_NewCAClient ''Org1MSP''] @
         [Call_ca_Reenroll enrollmentID])"
    using inst ca by blast
  have "ca_Enroll stub_ca [] [] = Some (Other ''wrong secret'')"
    and "ca_Reenroll stub_ca [] = Some (Other ''empty enrollment ID'')"
    by (simp_all add: stub_ca_def)
  then show ?thesis
    using opts ca e [rule_format, of "[]"] r [rule_format, of "[]"] by simp
qed

subsection \<open>Revocation\<close>

lemma append_loop: "foldl (\<lambda>acc x. acc @ [f x]) ys xs = ys @ map f xs"
  by (induction xs arbitrary: ys) simp_all

lemma Revoke_resolved:
  "newCAClient (ctx c) (orgName c) t = ((Some ca, None), t') \<Longrightarrow>
     Revoke c (Some req) t =
       (case ca_Revoke ca req of
          Inl err \<Rightarrow> (Returns (None, Some err), c, t' @ [Call_ca_Revoke req])
        | Inr resp \<Rightarrow>
            (Returns (Some \<lparr>RevokedCerts =
                               map (\<lambda>x. \<lparr>Serial = mspapi_Serial x, AKI = mspapi_AKI x\<rparr>)
                                 (mspapi_RevokedCerts resp),
                             CRL = mspapi_CRL resp\<rparr>, None),
             c, t' @ [Call_ca_Revoke req]))"
  by (simp add: Revoke_def Let_def append_loop [where ys = "[]", simplified] split: sum.splits)

lemma Revoke_nonempty_origin:
  assumes "fst (Revoke c request t) = Returns (Some response, e)"
  shows "\<exists>ca t' req resp.
           newCAClient (ctx c) (orgName c) t = ((Some ca, None), t') \<and>
           request = Some req \<and> ca_Revoke ca req = Inr resp \<and> e = None \<and>
           RevokedCerts response =
             map (\<lambda>x. \<lparr>Serial = mspapi_Serial x, AKI = mspapi_AKI x\<rparr>)
               (mspapi_RevokedCerts resp)"
proof -
  obtain ca er t' where n: "newCAClient (ctx c) (orgName c) t = ((ca, er), t')"
    by (cases "newCAClient (ctx c) (orgName c) t") auto
  from assms n have er: "er = None"
    by (cases er) (simp_all add: Revoke_def)
  from assms n er obtain req where req: "request = Some req"
    by (cases request) (simp_all add: Revoke_def)
  from assms n er req obtain ca' where ca: "ca = Some ca'"
    by (cases ca) (simp_all add: Revoke_def)
  from n er ca have r: "newCAClient (ctx c) (orgName c) t = ((Some ca', None), t')"
    by simp
  from assms req Revoke_resolved [OF r, of req]
  obtain resp where resp: "ca_Revoke ca' req = Inr resp"
    by (cases "ca_Revoke ca' req") simp_all
  from assms req Revoke_resolved [OF r, of req] resp
  have "e = None" and "RevokedCerts response =
             map (\<lambda>x. \<lparr>Serial = mspapi_Serial x, AKI = mspapi_AKI x\<rparr>)
               (mspapi_RevokedCerts resp)"
    by auto
  with r req resp show ?thesis by blast
qed

text \<open>
  C5: with the CA client resolved, when \<open>ca.Revoke\<close> succeeds with no revoked
  certificate, \<open>Revoke\<close> returns a response with an empty list of certificates and no
  error; when \<open>ca.Revoke\<close> fails, \<open>Revoke\<close> returns no response and that error. And
  whenever \<open>Revoke\<close> returns a response whose list is not empty, the CA client was
  resolved, \<open>ca.Revoke\<close> succeeded, the error returned is \<open>nil\<close>, and the list is the
  CA's list, entry by entry.
\<close>

theorem Revoke_response:
  "(newCAClient (ctx c) (orgName c) t = ((Some ca, None), t') \<and>
    ca_Revoke ca req = Inr resp \<and> mspapi_RevokedCerts resp = [] \<longrightarrow>
      fst (Revoke c (Some req) t) =
        Returns (Some \<lparr>RevokedCerts = [], CRL = mspapi_CRL resp\<rparr>, None)) \<and>
   (newCAClient (ctx c) (orgName c) t = ((Some ca, None), t') \<and>
    ca_Revoke ca req = Inl err \<longrightarrow>
      fst (Revoke c (Some req) t) = Returns (None, Some err)) \<and>
   (fst (Revoke c request t) = Returns (Some response, e) \<and> RevokedCerts response \<noteq> [] \<longrightarrow>
      (\<exists>ca' t'' req' resp'.
         newCAClient (ctx c) (orgName c) t = ((Some ca', None), t'') \<and>
         request = Some req' \<and> ca_Revoke ca' req' = Inr resp' \<and> e = None \<and>
         RevokedCerts response =
           map (\<lambda>x. \<lparr>Serial = mspapi_Serial x, AKI = mspapi_AKI x\<rparr>)
             (mspapi_RevokedCerts resp')))"
proof (intro conjI impI)
  assume "newCAClient (ctx c) (orgName c) t = ((Some ca, None), t') \<and>
    ca_Revoke ca req = Inr resp \<and> mspapi_RevokedCerts resp = []"
  then show "fst (Revoke c (Some req) t) =
        Returns (Some \<lparr>RevokedCerts = [], CRL = mspapi_CRL resp\<rparr>, None)"
    by (simp add: Revoke_resolved)
next
  assume "newCAClient (ctx c) (orgName c) t = ((Some ca, None), t') \<and>
    ca_Revoke ca req = Inl err"
  then show "fst (Revoke c (Some req) t) = Returns (None, Some err)"
    by (simp add: Revoke_resolved)
next
  assume "fst (Revoke c request t) = Returns (Some response, e) \<and> RevokedCerts response \<noteq> []"
  then have "fst (Revoke c request t) = Returns (Some response, e)" by simp
  then show "\<exists>ca' t'' req' resp'.
         newCAClient (ctx c) (orgName c) t = ((Some ca', None), t'') \<and>
         request = Some req' \<and> ca_Revoke ca' req' = Inr resp' \<and> e = None \<and>
         RevokedCerts response =
           map (\<lambda>x. \<lparr>Serial = mspapi_Serial x, AKI = mspapi_AKI x\<rparr>)
             (mspapi_RevokedCerts resp')"
    by (rule Revoke_nonempty_origin)
qed

text \<open>
  The theorem at the stub CA: a revocation for \<open>nobody\<close> (nothing revoked), for \<open>carol\<close>
  (refused) and for \<open>alice\<close> (one certificate revoked).
\<close>

theorem Revoke_response_witness:
  "newCAClient (ctx stub_msp) (orgName stub_msp) [] =
     ((Some stub_ca, None), [Call_IdentityManager ''Org1MSP'', Call_NewCAClient ''Org1MSP'']) \<and>
   ca_Revoke stub_ca (stub_revocation ''nobody'') =
     Inr \<lparr>mspapi_RevokedCerts = [], mspapi_CRL = [1]\<rparr> \<and>
   fst (Revoke stub_msp (Some (stub_revocation ''nobody'')) []) =
     Returns (Some \<lparr>RevokedCerts = [], CRL = [1]\<rparr>, None) \<and>
   ca_Revoke stub_ca (stub_revocation ''carol'') = Inl (Other ''revocation refused'') \<and>
   fst (Revoke stub_msp (Some (stub_revocation ''carol'')) []) =
     Returns (None, Some (Other ''revocation refused'')) \<and>
   fst (Revoke stub_msp (Some (stub_revocation ''alice'')) []) =
     Returns (Some \<lparr>RevokedCerts = [\<lparr>Serial = ''01'', AKI = ''ab''\<rparr>], CRL = [1, 2]\<rparr>, None) \<and>
   [\<lparr>Serial = ''01'', AKI = ''ab''\<rparr>] \<noteq> [] \<and>
   (\<exists>ca' t'' resp'.
      newCAClient (ctx stub_msp) (orgName stub_msp) [] = ((Some ca', None), t'') \<and>
      ca_Revoke ca' (stub_revocation ''alice'') = Inr resp' \<and>
      [\<lparr>Serial = ''01'', AKI = ''ab''\<rparr>] =
        map (\<lambda>x. \<lparr>Serial = mspapi_Serial x, AKI = mspapi_AKI x\<rparr>)
          (mspapi_RevokedCerts resp'))"
proof -
  have ca: "newCAClient (ctx stub_msp) (orgName stub_msp) [] =
      ((Some stub_ca, None), [Call_IdentityManager ''Org1MSP'', Call_NewCAClient ''Org1MSP''])"
    by (simp add: newCAClient_def stub_msp_def stub_ctx_def)
  have nobody: "ca_Revoke stub_ca (stub_revocation ''nobody'') =
      Inr \<lparr>mspapi_RevokedCerts = [], mspapi_CRL = [1]\<rparr>"
    by (simp add: stub_ca_def stub_revocation_def)
  have carol: "ca_Revoke stub_ca (stub_revocation ''carol'') = Inl (Other ''revocation refused'')"
    by (simp add: stub_ca_def stub_revocation_def)
  have alice: "ca_Revoke stub_ca (stub_revocation ''alice'') =
      Inr \<lparr>mspapi_RevokedCerts = [\<lparr>mspapi_Serial = ''01'', mspapi_AKI = ''ab''\<rparr>],
           mspapi_CRL = [1, 2]\<rparr>"
    by (simp add: stub_ca_def stub_revocation_def)
  have r1: "fst (Revoke stub_msp (Some (stub_revocation ''nobody'')) []) =
      Returns (Some \<lparr>RevokedCerts = [],
                      CRL = mspapi_CRL \<lparr>mspapi_RevokedCerts = [], mspapi_CRL = [1]\<rparr>\<rparr>, None)"
    using Revoke_response [of stub_msp "[]" stub_ca
        "[Call_IdentityManager ''Org1MSP'', Call_NewCAClient ''Org1MSP'']"
        "stub_revocation ''nobody''" "\<lparr>mspapi_RevokedCerts = [], mspapi_CRL = [1]\<rparr>"]
      ca nobody by simp
  have r2: "fst (Revoke stub_msp (Some (stub_revocation ''carol'')) []) =
      Returns (None, Some (Other ''revocation refused''))"
    using Revoke_response [of stub_msp "[]" stub_ca
        "[Call_IdentityManager ''Org1MSP'', Call_NewCAClient ''Org1MSP'']"
        "stub_revocation ''carol''" _ "Other ''revocation refused''"]
      ca carol by simp
  have r3: "fst (Revoke stub_msp (Some (stub_revocation ''alice'')) []) =
      Returns (Some \<lparr>RevokedCerts = [\<lparr>Serial = ''01'', AKI = ''ab''\<rparr>], CRL = [1, 2]\<rparr>, None)"
    using ca alice by (simp add: Revoke_resolved)
  have r4: "\<exists>ca' t'' resp'.
      newCAClient (ctx stub_msp) (orgName stub_msp) [] = ((Some ca', None), t'') \<and>
      ca_Revoke ca' (stub_revocation ''alice'') = Inr resp' \<and>
      [\<lparr>Serial = ''01'', AKI = ''ab''\<rparr>] =
        map (\<lambda>x. \<lparr>Serial = mspapi_Serial x, AKI = mspapi_AKI x\<rparr>)
          (mspapi_RevokedCerts resp')"
    using Revoke_response [of stub_msp "[]" _ _ _ _ _ "Some (stub_revocation ''alice'')"
        "\<lparr>RevokedCerts = [\<lparr>Serial = ''01'', AKI = ''ab''\<rparr>], CRL = [1, 2]\<rparr>" None] r3
    by auto
  show ?thesis
    using ca nobody carol r1 r2 r3 r4 by simp
qed

subsection \<open>Operations and the CA client\<close>

text \<open>The loop over the enrollment options: what it calls and what it returns.\<close>

lemma Enroll_opts_append:
  "Enroll_opts pre i eo t = (Inr eo', t') \<Longrightarrow>
     Enroll_opts (pre @ post) i eo t = Enroll_opts post (i + length pre) eo' t'"
  by (induction pre arbitrary: i eo t) (auto split: prod.splits option.splits)

lemma Enroll_opts_calls:
  "Enroll_opts opts i eo t = (Inr eo', t') \<Longrightarrow>
     t' = t @ map Call_EnrollmentOption [i..<i + length opts]"
proof (induction opts arbitrary: i eo t)
  case Nil
  then show ?case by simp
next
  case (Cons param opts)
  obtain eo1 e where p: "param eo = (eo1, e)" by (cases "param eo")
  show ?case
  proof (cases e)
    case None
    with Cons.prems p
    have "Enroll_opts opts (Suc i) eo1 (t @ [Call_EnrollmentOption i]) = (Inr eo', t')" by simp
    from Cons.IH [OF this]
    have "t' = t @ map Call_EnrollmentOption (i # [Suc i..<Suc (i + length opts)])"
      by simp
    then show ?thesis by (simp only: upt_shift length_Cons add_Suc_right)
  next
    case (Some err)
    with Cons.prems p show ?thesis by simp
  qed
qed

lemma Enroll_opts_failing:
  assumes pre: "Enroll_opts pre i eo t = (Inr eo', t')"
    and param: "snd (param eo') = Some err"
  shows "Enroll_opts (pre @ param # post) i eo t =
           (Inl (WithMessage err ''failed to enroll''),
            t @ map Call_EnrollmentOption [i..<Suc (i + length pre)])"
proof -
  obtain eo1 where p: "param eo' = (eo1, Some err)"
    using param by (cases "param eo'") simp
  have "Enroll_opts (pre @ param # post) i eo t =
          Enroll_opts (param # post) (i + length pre) eo' t'"
    by (rule Enroll_opts_append [OF pre])
  also have "\<dots> = (Inl (WithMessage err ''failed to enroll''),
                    t' @ [Call_EnrollmentOption (i + length pre)])"
    using p by simp
  finally show ?thesis
    by (simp add: Enroll_opts_calls [OF pre])
qed

lemma Enroll_opts_error:
  "Enroll_opts opts i eo t = (Inl e, t') \<Longrightarrow>
     \<exists>err n. n < length opts \<and> e = WithMessage err ''failed to enroll'' \<and>
             t' = t @ map Call_EnrollmentOption [i..<Suc (i + n)]"
proof (induction opts arbitrary: i eo t)
  case Nil
  then show ?case by simp
next
  case (Cons param opts)
  obtain eo1 r where p: "param eo = (eo1, r)" by (cases "param eo")
  show ?case
  proof (cases r)
    case None
    with Cons.prems p
    have "Enroll_opts opts (Suc i) eo1 (t @ [Call_EnrollmentOption i]) = (Inl e, t')" by simp
    from Cons.IH [OF this] obtain err n where n: "n < length opts"
      and e: "e = WithMessage err ''failed to enroll''"
      and t': "t' = (t @ [Call_EnrollmentOption i]) @ map Call_EnrollmentOption [Suc i..<Suc (Suc i + n)]"
      by blast
    have "t' = t @ map Call_EnrollmentOption (i # [Suc i..<Suc (i + Suc n)])"
      using t' by simp
    then have "t' = t @ map Call_EnrollmentOption [i..<Suc (i + Suc n)]"
      by (simp only: upt_shift)
    with n e show ?thesis
      by (intro exI [of _ err] exI [of _ "Suc n"]) simp
  next
    case (Some err)
    with Cons.prems p
    have "e = WithMessage err ''failed to enroll''" and "t' = t @ [Call_EnrollmentOption i]"
      by simp_all
    then show ?thesis
      by (intro exI [of _ err] exI [of _ 0]) simp
  qed
qed

lemma WithSecret_apply: "WithSecret s eo = (eo\<lparr>secret := s\<rparr>, None)"
  by (simp add: WithSecret_def)

lemma Enroll_opts_WithSecret:
  "Enroll_opts (map WithSecret secrets) i eo t =
     (Inr (eo\<lparr>secret := last (secret eo # secrets)\<rparr>),
      t @ map Call_EnrollmentOption [i..<i + length secrets])"
proof (induction secrets arbitrary: i eo t)
  case Nil
  then show ?case by simp
next
  case (Cons s secrets)
  have step: "Enroll_opts (map WithSecret (s # secrets)) i eo t =
          Enroll_opts (map WithSecret secrets) (Suc i) (eo\<lparr>secret := s\<rparr>)
            (t @ [Call_EnrollmentOption i])"
    by (simp add: WithSecret_def)
  have calls: "map Call_EnrollmentOption [i..<i + length (s # secrets)] =
          Call_EnrollmentOption i # map Call_EnrollmentOption [Suc i..<Suc i + length secrets]"
    by (simp add: upt_conv_Cons del: upt_Suc)
  have "last (secret (eo\<lparr>secret := s\<rparr>) # secrets) = last (secret eo # s # secrets)"
    by simp
  then show ?case
    unfolding step Cons.IH calls by simp
qed

text \<open>The calls of \<open>newCAClient\<close>, by the answer of the lookup.\<close>

lemma newCAClient_ok:
  "snd (IdentityManager cx org) \<Longrightarrow>
     \<exists>r. newCAClient cx org t = (r, t @ [Call_IdentityManager org, Call_NewCAClient org])"
  by (cases "IdentityManager cx org") (auto simp: newCAClient_def split: sum.splits)

lemma Reenroll_not_ok:
  "\<not> snd (IdentityManager (ctx c) (orgName c)) \<Longrightarrow>
     Reenroll c enrollmentID t =
       (Returns (Some (CAClientUnavailable (orgName c))), c, t @ [Call_IdentityManager (orgName c)])"
  by (simp add: Reenroll_def newCAClient_not_ok)

lemma Register_not_ok:
  "\<not> snd (IdentityManager (ctx c) (orgName c)) \<Longrightarrow>
     Register c request t =
       (Returns ([], Some (CAClientUnavailable (orgName c))), c,
        t @ [Call_IdentityManager (orgName c)])"
  by (simp add: Register_def newCAClient_not_ok)

lemma Revoke_not_ok:
  "\<not> snd (IdentityManager (ctx c) (orgName c)) \<Longrightarrow>
     Revoke c request t =
       (Returns (None, Some (CAClientUnavailable (orgName c))), c,
        t @ [Call_IdentityManager (orgName c)])"
  by (simp add: Revoke_def newCAClient_not_ok)

lemma Enroll_not_ok:
  assumes "\<not> snd (IdentityManager (ctx c) (orgName c))"
    and opts: "Enroll_opts opts 0 \<lparr>secret = []\<rparr> t = (Inr eo, t')"
  shows "Enroll c enrollmentID opts t =
       (Returns (Some (CAClientUnavailable (orgName c))), c,
        t @ map Call_EnrollmentOption [0..<length opts] @ [Call_IdentityManager (orgName c)])"
proof -
  have "t' = t @ map Call_EnrollmentOption [0..<0 + length opts]"
    by (rule Enroll_opts_calls [OF opts])
  with assms show ?thesis
    by (simp add: Enroll_def newCAClient_not_ok)
qed

lemma Reenroll_ok:
  assumes "snd (IdentityManager (ctx c) (orgName c))"
  shows "\<exists>ts. snd (snd (Reenroll c enrollmentID t)) =
            t @ Call_IdentityManager (orgName c) # Call_NewCAClient (orgName c) # ts"
proof -
  obtain r where "newCAClient (ctx c) (orgName c) t =
      (r, t @ [Call_IdentityManager (orgName c), Call_NewCAClient (orgName c)])"
    using newCAClient_ok [OF assms] by blast
  then show ?thesis
    by (auto simp: Reenroll_def split: prod.splits option.splits)
qed

lemma Register_ok:
  assumes "snd (IdentityManager (ctx c) (orgName c))"
  shows "\<exists>ts. snd (snd (Register c request t)) =
            t @ Call_IdentityManager (orgName c) # Call_NewCAClient (orgName c) # ts"
proof -
  obtain r where "newCAClient (ctx c) (orgName c) t =
      (r, t @ [Call_IdentityManager (orgName c), Call_NewCAClient (orgName c)])"
    using newCAClient_ok [OF assms] by blast
  then show ?thesis
    by (auto simp: Register_def Let_def split: prod.splits option.splits)
qed

lemma Revoke_ok:
  assumes "snd (IdentityManager (ctx c) (orgName c))"
  shows "\<exists>ts. snd (snd (Revoke c request t)) =
            t @ Call_IdentityManager (orgName c) # Call_NewCAClient (orgName c) # ts"
proof -
  obtain r where "newCAClient (ctx c) (orgName c) t =
      (r, t @ [Call_IdentityManager (orgName c), Call_NewCAClient (orgName c)])"
    using newCAClient_ok [OF assms] by blast
  then show ?thesis
    by (auto simp: Revoke_def Let_def split: prod.splits option.splits sum.splits)
qed

lemma Enroll_ok:
  assumes ok: "snd (IdentityManager (ctx c) (orgName c))"
    and opts: "Enroll_opts opts 0 \<lparr>secret = []\<rparr> t = (Inr eo, t')"
  shows "\<exists>ts. snd (snd (Enroll c enrollmentID opts t)) =
            t @ map Call_EnrollmentOption [0..<length opts] @
              Call_IdentityManager (orgName c) # Call_NewCAClient (orgName c) # ts"
proof -
  have t': "t' = t @ map Call_EnrollmentOption [0..<0 + length opts]"
    by (rule Enroll_opts_calls [OF opts])
  obtain r where "newCAClient (ctx c) (orgName c) t' =
      (r, t' @ [Call_IdentityManager (orgName c), Call_NewCAClient (orgName c)])"
    using newCAClient_ok [OF ok] by blast
  with opts t' show ?thesis
    by (auto simp: Enroll_def split: prod.splits option.splits)
qed

lemma Enroll_failing_option:
  assumes "Enroll_opts pre 0 \<lparr>secret = []\<rparr> t = (Inr eo, t')"
    and "snd (param eo) = Some err"
  shows "Enroll c enrollmentID (pre @ param # post) t =
           (Returns (Some (WithMessage err ''failed to enroll'')), c,
            t @ map Call_EnrollmentOption [0..<Suc (length pre)])"
  using Enroll_opts_failing [where param = param, OF assms, of post] by (simp add: Enroll_def)

lemma GetUser_calls:
  "fst (IdentityManager (ctx c) (orgName c)) = Some im \<Longrightarrow>
     snd (snd (GetUser c userName t)) =
       t @ [Call_IdentityManager (orgName c), Call_im_GetUser userName]"
  by (cases "IdentityManager (ctx c) (orgName c)")
    (simp add: GetUser_def split: sum.splits)

lemma GetSigningIdentity_calls:
  "snd (snd (GetSigningIdentity c userName t)) = snd (snd (GetUser c userName t))"
  by (cases "GetUser c userName t")
    (simp add: GetSigningIdentity_def split: outcome.splits prod.splits option.splits)

text \<open>
  C2 says that each of the six operations first resolves a CA client and fails with the
  CA-client-unavailable error when the organization has no identity manager. Three
  runs against it: \<open>GetUser\<close> for a registered organization returns the user after two
  calls, the lookup of the identity manager and \<open>im.GetUser\<close>, and no CA client is made;
  for an organization without identity manager \<open>GetUser\<close> and \<open>GetSigningIdentity\<close> do
  not return that error; and \<open>Enroll\<close> with a failing option returns the option's error
  before any lookup.
\<close>

theorem not_every_operation_resolves_the_CA_client:
  "GetUser stub_msp ''alice'' [] =
     (Returns (Some stub_alice, None), stub_msp,
      [Call_IdentityManager ''Org1MSP'', Call_im_GetUser ''alice'']) \<and>
   IdentityManager (ctx stub_msp_unregistered) (orgName stub_msp_unregistered) = (None, False) \<and>
   GetUser stub_msp_unregistered ''alice'' [] =
     (Panics, stub_msp_unregistered, [Call_IdentityManager ''Org2MSP'']) \<and>
   GetSigningIdentity stub_msp_unregistered ''alice'' [] =
     (Panics, stub_msp_unregistered, [Call_IdentityManager ''Org2MSP'']) \<and>
   Enroll stub_msp_unregistered ''alice'' [stub_failing_EnrollmentOption] [] =
     (Returns (Some (WithMessage (Other ''bad option'') ''failed to enroll'')),
      stub_msp_unregistered, [Call_EnrollmentOption 0])"
  by (simp add: GetUser_def GetSigningIdentity_def Enroll_def stub_msp_def
      stub_msp_unregistered_def stub_ctx_def stub_im_def stub_failing_EnrollmentOption_def)

text \<open>
  C2, amended: \<open>Reenroll\<close>, \<open>Register\<close> and \<open>Revoke\<close> first resolve a CA client bound to
  the facade's organization: their first calls are the lookup of that organization's
  identity manager and, when the lookup reports one, \<open>msp.NewCAClient\<close> for that
  organization. \<open>Enroll\<close> does the same after it has called its enrollment options in
  order, each without error; when an option returns an error, \<open>Enroll\<close> returns that
  error under the message "failed to enroll" and its calls are the options up to the
  failing one, no lookup among them. When the lookup reports that no identity manager
  is registered, each of the four returns the error "identity manager not found for
  organization '" followed by the organization name, and calls nothing after the lookup.
  \<open>GetUser\<close> and \<open>GetSigningIdentity\<close> resolve no CA client: when the context hands out
  an identity manager, their calls are exactly the lookup and that manager's \<open>GetUser\<close>.
\<close>

theorem operations_and_the_CA_client:
  "(\<not> snd (IdentityManager (ctx c) (orgName c)) \<longrightarrow>
      Reenroll c enrollmentID t =
        (Returns (Some (CAClientUnavailable (orgName c))), c,
         t @ [Call_IdentityManager (orgName c)]) \<and>
      Register c registration t =
        (Returns ([], Some (CAClientUnavailable (orgName c))), c,
         t @ [Call_IdentityManager (orgName c)]) \<and>
      Revoke c revocation t =
        (Returns (None, Some (CAClientUnavailable (orgName c))), c,
         t @ [Call_IdentityManager (orgName c)]) \<and>
      Enroll c enrollmentID (map WithSecret secrets) t =
        (Returns (Some (CAClientUnavailable (orgName c))), c,
         t @ map Call_EnrollmentOption [0..<length secrets] @
           [Call_IdentityManager (orgName c)]) \<and>
      (\<forall>opts eo t'. Enroll_opts opts 0 \<lparr>secret = []\<rparr> t = (Inr eo, t') \<longrightarrow>
         Enroll c enrollmentID opts t =
           (Returns (Some (CAClientUnavailable (orgName c))), c,
            t @ map Call_EnrollmentOption [0..<length opts] @
              [Call_IdentityManager (orgName c)]))) \<and>
   (snd (IdentityManager (ctx c) (orgName c)) \<longrightarrow>
      (\<exists>ts. snd (snd (Reenroll c enrollmentID t)) =
         t @ Call_IdentityManager (orgName c) # Call_NewCAClient (orgName c) # ts) \<and>
      (\<exists>ts. snd (snd (Register c registration t)) =
         t @ Call_IdentityManager (orgName c) # Call_NewCAClient (orgName c) # ts) \<and>
      (\<exists>ts. snd (snd (Revoke c revocation t)) =
         t @ Call_IdentityManager (orgName c) # Call_NewCAClient (orgName c) # ts) \<and>
      (\<exists>ts. snd (snd (Enroll c enrollmentID (map WithSecret secrets) t)) =
         t @ map Call_EnrollmentOption [0..<length secrets] @
           Call_IdentityManager (orgName c) # Call_NewCAClient (orgName c) # ts) \<and>
      (\<forall>opts eo t'. Enroll_opts opts 0 \<lparr>secret = []\<rparr> t = (Inr eo, t') \<longrightarrow>
         (\<exists>ts. snd (snd (Enroll c enrollmentID opts t)) =
            t @ map Call_EnrollmentOption [0..<length opts] @
              Call_IdentityManager (orgName c) # Call_NewCAClient (orgName c) # ts))) \<and>
   (\<forall>pre eo t' param err post.
      Enroll_opts pre 0 \<lparr>secret = []\<rparr> t = (Inr eo, t') \<and> snd (param eo) = Some err \<longrightarrow>
        Enroll c enrollmentID (pre @ param # post) t =
          (Returns (Some (WithMessage err ''failed to enroll'')), c,
           t @ map Call_EnrollmentOption [0..<Suc (length pre)])) \<and>
   (\<forall>opts e t'. Enroll_opts opts 0 \<lparr>secret = []\<rparr> t = (Inl e, t') \<longrightarrow>
      Enroll c enrollmentID opts t = (Returns (Some e), c, t') \<and>
      (\<exists>err n. n < length opts \<and> e = WithMessage err ''failed to enroll'' \<and>
         t' = t @ map Call_EnrollmentOption [0..<Suc n])) \<and>
   (\<forall>im. fst (IdentityManager (ctx c) (orgName c)) = Some im \<longrightarrow>
      snd (snd (GetUser c userName t)) =
        t @ [Call_IdentityManager (orgName c), Call_im_GetUser userName] \<and>
      snd (snd (GetSigningIdentity c userName t)) =
        t @ [Call_IdentityManager (orgName c), Call_im_GetUser userName]) \<and>
   (\<exists>prefix. CAClientUnavailable (orgName c) = Errorf (prefix @ orgName c))"
proof -
  have secrets: "Enroll_opts (map WithSecret secrets) 0 \<lparr>secret = []\<rparr> t =
      (Inr (\<lparr>secret = []\<rparr>\<lparr>secret := last (secret \<lparr>secret = []\<rparr> # secrets)\<rparr>),
       t @ map Call_EnrollmentOption [0..<0 + length secrets])"
    by (rule Enroll_opts_WithSecret)
  have unregistered: "Reenroll c enrollmentID t =
        (Returns (Some (CAClientUnavailable (orgName c))), c,
         t @ [Call_IdentityManager (orgName c)]) \<and>
      Register c registration t =
        (Returns ([], Some (CAClientUnavailable (orgName c))), c,
         t @ [Call_IdentityManager (orgName c)]) \<and>
      Revoke c revocation t =
        (Returns (None, Some (CAClientUnavailable (orgName c))), c,
         t @ [Call_IdentityManager (orgName c)]) \<and>
      Enroll c enrollmentID (map WithSecret secrets) t =
        (Returns (Some (CAClientUnavailable (orgName c))), c,
         t @ map Call_EnrollmentOption [0..<length secrets] @
           [Call_IdentityManager (orgName c)]) \<and>
      (\<forall>opts eo t'. Enroll_opts opts 0 \<lparr>secret = []\<rparr> t = (Inr eo, t') \<longrightarrow>
         Enroll c enrollmentID opts t =
           (Returns (Some (CAClientUnavailable (orgName c))), c,
            t @ map Call_EnrollmentOption [0..<length opts] @
              [Call_IdentityManager (orgName c)]))"
    if "\<not> snd (IdentityManager (ctx c) (orgName c))"
    using Reenroll_not_ok [OF that] Register_not_ok [OF that] Revoke_not_ok [OF that]
      Enroll_not_ok [OF that] Enroll_not_ok [OF that secrets, of enrollmentID]
    by (simp only: length_map) blast
  have registered: "(\<exists>ts. snd (snd (Reenroll c enrollmentID t)) =
         t @ Call_IdentityManager (orgName c) # Call_NewCAClient (orgName c) # ts) \<and>
      (\<exists>ts. snd (snd (Register c registration t)) =
         t @ Call_IdentityManager (orgName c) # Call_NewCAClient (orgName c) # ts) \<and>
      (\<exists>ts. snd (snd (Revoke c revocation t)) =
         t @ Call_IdentityManager (orgName c) # Call_NewCAClient (orgName c) # ts) \<and>
      (\<exists>ts. snd (snd (Enroll c enrollmentID (map WithSecret secrets) t)) =
         t @ map Call_EnrollmentOption [0..<length secrets] @
           Call_IdentityManager (orgName c) # Call_NewCAClient (orgName c) # ts) \<and>
      (\<forall>opts eo t'. Enroll_opts opts 0 \<lparr>secret = []\<rparr> t = (Inr eo, t') \<longrightarrow>
         (\<exists>ts. snd (snd (Enroll c enrollmentID opts t)) =
            t @ map Call_EnrollmentOption [0..<length opts] @
              Call_IdentityManager (orgName c) # Call_NewCAClient (orgName c) # ts))"
    if "snd (IdentityManager (ctx c) (orgName c))"
    using Reenroll_ok [OF that, of enrollmentID t] Register_ok [OF that, of registration t]
      Revoke_ok [OF that, of revocation t] Enroll_ok [OF that]
      Enroll_ok [OF that secrets, of enrollmentID]
    by (simp only: length_map) blast
  have failing: "\<forall>pre eo t' param err post.
      Enroll_opts pre 0 \<lparr>secret = []\<rparr> t = (Inr eo, t') \<and> snd (param eo) = Some err \<longrightarrow>
        Enroll c enrollmentID (pre @ param # post) t =
          (Returns (Some (WithMessage err ''failed to enroll'')), c,
           t @ map Call_EnrollmentOption [0..<Suc (length pre)])"
    using Enroll_failing_option by blast
  have error: "\<forall>opts e t'. Enroll_opts opts 0 \<lparr>secret = []\<rparr> t = (Inl e, t') \<longrightarrow>
      Enroll c enrollmentID opts t = (Returns (Some e), c, t') \<and>
      (\<exists>err n. n < length opts \<and> e = WithMessage err ''failed to enroll'' \<and>
         t' = t @ map Call_EnrollmentOption [0..<Suc n])"
  proof (intro allI impI)
    fix opts e t'
    assume a: "Enroll_opts opts 0 \<lparr>secret = []\<rparr> t = (Inl e, t')"
    from Enroll_opts_error [OF a] Enroll_option_error [OF a, of c enrollmentID]
    show "Enroll c enrollmentID opts t = (Returns (Some e), c, t') \<and>
      (\<exists>err n. n < length opts \<and> e = WithMessage err ''failed to enroll'' \<and>
         t' = t @ map Call_EnrollmentOption [0..<Suc n])"
      by simp
  qed
  have users: "\<forall>im. fst (IdentityManager (ctx c) (orgName c)) = Some im \<longrightarrow>
      snd (snd (GetUser c userName t)) =
        t @ [Call_IdentityManager (orgName c), Call_im_GetUser userName] \<and>
      snd (snd (GetSigningIdentity c userName t)) =
        t @ [Call_IdentityManager (orgName c), Call_im_GetUser userName]"
    by (simp add: GetSigningIdentity_calls GetUser_calls)
  have message: "\<exists>prefix. CAClientUnavailable (orgName c) = Errorf (prefix @ orgName c)"
    by (rule exI [of _ "''identity manager not found for organization '' @ [CHR 0x27]"]) simp
  from unregistered have unregistered': "\<not> snd (IdentityManager (ctx c) (orgName c)) \<longrightarrow>
      Reenroll c enrollmentID t =
        (Returns (Some (CAClientUnavailable (orgName c))), c,
         t @ [Call_IdentityManager (orgName c)]) \<and>
      Register c registration t =
        (Returns ([], Some (CAClientUnavailable (orgName c))), c,
         t @ [Call_IdentityManager (orgName c)]) \<and>
      Revoke c revocation t =
        (Returns (None, Some (CAClientUnavailable (orgName c))), c,
         t @ [Call_IdentityManager (orgName c)]) \<and>
      Enroll c enrollmentID (map WithSecret secrets) t =
        (Returns (Some (CAClientUnavailable (orgName c))), c,
         t @ map Call_EnrollmentOption [0..<length secrets] @
           [Call_IdentityManager (orgName c)]) \<and>
      (\<forall>opts eo t'. Enroll_opts opts 0 \<lparr>secret = []\<rparr> t = (Inr eo, t') \<longrightarrow>
         Enroll c enrollmentID opts t =
           (Returns (Some (CAClientUnavailable (orgName c))), c,
            t @ map Call_EnrollmentOption [0..<length opts] @
              [Call_IdentityManager (orgName c)]))"
    by (rule impI)
  from registered have registered': "snd (IdentityManager (ctx c) (orgName c)) \<longrightarrow>
      (\<exists>ts. snd (snd (Reenroll c enrollmentID t)) =
         t @ Call_IdentityManager (orgName c) # Call_NewCAClient (orgName c) # ts) \<and>
      (\<exists>ts. snd (snd (Register c registration t)) =
         t @ Call_IdentityManager (orgName c) # Call_NewCAClient (orgName c) # ts) \<and>
      (\<exists>ts. snd (snd (Revoke c revocation t)) =
         t @ Call_IdentityManager (orgName c) # Call_NewCAClient (orgName c) # ts) \<and>
      (\<exists>ts. snd (snd (Enroll c enrollmentID (map WithSecret secrets) t)) =
         t @ map Call_EnrollmentOption [0..<length secrets] @
           Call_IdentityManager (orgName c) # Call_NewCAClient (orgName c) # ts) \<and>
      (\<forall>opts eo t'. Enroll_opts opts 0 \<lparr>secret = []\<rparr> t = (Inr eo, t') \<longrightarrow>
         (\<exists>ts. snd (snd (Enroll c enrollmentID opts t)) =
            t @ map Call_EnrollmentOption [0..<length opts] @
              Call_IdentityManager (orgName c) # Call_NewCAClient (orgName c) # ts))"
    by (rule impI)
  from unregistered' registered' failing error users message show ?thesis
    by (intro conjI)
qed

text \<open>
  The theorem for the organization \<open>Org2MSP\<close>, which the stub session does not know, and
  for \<open>Org1MSP\<close>, which it knows; with the option \<open>WithSecret "s3cr3t"\<close> and with a failing
  option.
\<close>

theorem operations_and_the_CA_client_witness:
  "\<not> snd (IdentityManager (ctx stub_msp_unregistered) (orgName stub_msp_unregistered)) \<and>
   Reenroll stub_msp_unregistered ''alice'' [] =
     (Returns (Some (CAClientUnavailable ''Org2MSP'')), stub_msp_unregistered,
      [Call_IdentityManager ''Org2MSP'']) \<and>
   Register stub_msp_unregistered (Some stub_request) [] =
     (Returns ([], Some (CAClientUnavailable ''Org2MSP'')), stub_msp_unregistered,
      [Call_IdentityManager ''Org2MSP'']) \<and>
   Revoke stub_msp_unregistered (Some (stub_revocation ''alice'')) [] =
     (Returns (None, Some (CAClientUnavailable ''Org2MSP'')), stub_msp_unregistered,
      [Call_IdentityManager ''Org2MSP'']) \<and>
   Enroll stub_msp_unregistered ''alice'' [WithSecret ''s3cr3t''] [] =
     (Returns (Some (CAClientUnavailable ''Org2MSP'')), stub_msp_unregistered,
      [Call_EnrollmentOption 0, Call_IdentityManager ''Org2MSP'']) \<and>
   snd (IdentityManager (ctx stub_msp) (orgName stub_msp)) \<and>
   (\<exists>ts. snd (snd (Reenroll stub_msp ''alice'' [])) =
      Call_IdentityManager ''Org1MSP'' # Call_NewCAClient ''Org1MSP'' # ts) \<and>
   (\<exists>ts. snd (snd (Register stub_msp (Some stub_request) [])) =
      Call_IdentityManager ''Org1MSP'' # Call_NewCAClient ''Org1MSP'' # ts) \<and>
   (\<exists>ts. snd (snd (Revoke stub_msp (Some (stub_revocation ''alice'')) [])) =
      Call_IdentityManager ''Org1MSP'' # Call_NewCAClient ''Org1MSP'' # ts) \<and>
   (\<exists>ts. snd (snd (Enroll stub_msp ''alice'' [WithSecret ''s3cr3t''] [])) =
      Call_EnrollmentOption 0 # Call_IdentityManager ''Org1MSP'' #
        Call_NewCAClient ''Org1MSP'' # ts) \<and>
   Enroll_opts [WithSecret ''s3cr3t''] 0 \<lparr>secret = []\<rparr> [] =
     (Inr \<lparr>secret = ''s3cr3t''\<rparr>, [Call_EnrollmentOption 0]) \<and>
   snd (stub_failing_EnrollmentOption \<lparr>secret = ''s3cr3t''\<rparr>) = Some (Other ''bad option'') \<and>
   Enroll stub_msp ''alice''
       ([WithSecret ''s3cr3t''] @ stub_failing_EnrollmentOption # [WithSecret ''other'']) [] =
     (Returns (Some (WithMessage (Other ''bad option'') ''failed to enroll'')), stub_msp,
      [Call_EnrollmentOption 0, Call_EnrollmentOption 1]) \<and>
   Enroll_opts [stub_failing_EnrollmentOption] 0 \<lparr>secret = []\<rparr> [] =
     (Inl (WithMessage (Other ''bad option'') ''failed to enroll''), [Call_EnrollmentOption 0]) \<and>
   Enroll stub_msp_unregistered ''alice'' [stub_failing_EnrollmentOption] [] =
     (Returns (Some (WithMessage (Other ''bad option'') ''failed to enroll'')),
      stub_msp_unregistered, [Call_EnrollmentOption 0]) \<and>
   fst (IdentityManager (ctx stub_msp) (orgName stub_msp)) = Some stub_im \<and>
   snd (snd (GetUser stub_msp ''alice'' [])) =
     [Call_IdentityManager ''Org1MSP'', Call_im_GetUser ''alice''] \<and>
   snd (snd (GetSigningIdentity stub_msp ''alice'' [])) =
     [Call_IdentityManager ''Org1MSP'', Call_im_GetUser ''alice'']"
proof -
  have org2: "orgName stub_msp_unregistered = ''Org2MSP''"
    by (simp add: stub_msp_unregistered_def)
  have org1: "orgName stub_msp = ''Org1MSP''"
    by (simp add: stub_msp_def)
  have no_im: "\<not> snd (IdentityManager (ctx stub_msp_unregistered) (orgName stub_msp_unregistered))"
    by (simp add: stub_msp_unregistered_def stub_ctx_def)
  have ok: "snd (IdentityManager (ctx stub_msp) (orgName stub_msp))"
    by (simp add: stub_msp_def stub_ctx_def)
  have im: "fst (IdentityManager (ctx stub_msp) (orgName stub_msp)) = Some stub_im"
    by (simp add: stub_msp_def stub_ctx_def)
  have opts: "Enroll_opts [WithSecret ''s3cr3t''] 0 \<lparr>secret = []\<rparr> [] =
      (Inr \<lparr>secret = ''s3cr3t''\<rparr>, [Call_EnrollmentOption 0])"
    by (simp add: WithSecret_def)
  have param: "snd (stub_failing_EnrollmentOption \<lparr>secret = ''s3cr3t''\<rparr>) =
      Some (Other ''bad option'')"
    by (simp add: stub_failing_EnrollmentOption_def)
  have failing: "Enroll_opts [stub_failing_EnrollmentOption] 0 \<lparr>secret = []\<rparr> [] =
      (Inl (WithMessage (Other ''bad option'') ''failed to enroll''), [Call_EnrollmentOption 0])"
    by (simp add: stub_failing_EnrollmentOption_def)
  note unregistered = operations_and_the_CA_client [of stub_msp_unregistered "''alice''" "[]"
      "Some stub_request" "Some (stub_revocation ''alice'')" "[''s3cr3t'']" "''alice''"]
  note registered = operations_and_the_CA_client [of stub_msp "''alice''" "[]"
      "Some stub_request" "Some (stub_revocation ''alice'')" "[''s3cr3t'']" "''alice''"]
  have a: "Reenroll stub_msp_unregistered ''alice'' [] =
        (Returns (Some (CAClientUnavailable (orgName stub_msp_unregistered))),
         stub_msp_unregistered, [] @ [Call_IdentityManager (orgName stub_msp_unregistered)])"
    using unregistered no_im by blast
  have b: "Register stub_msp_unregistered (Some stub_request) [] =
        (Returns ([], Some (CAClientUnavailable (orgName stub_msp_unregistered))),
         stub_msp_unregistered, [] @ [Call_IdentityManager (orgName stub_msp_unregistered)])"
    using unregistered no_im by blast
  have c: "Revoke stub_msp_unregistered (Some (stub_revocation ''alice'')) [] =
        (Returns (None, Some (CAClientUnavailable (orgName stub_msp_unregistered))),
         stub_msp_unregistered, [] @ [Call_IdentityManager (orgName stub_msp_unregistered)])"
    using unregistered no_im by blast
  have d: "Enroll stub_msp_unregistered ''alice'' (map WithSecret [''s3cr3t'']) [] =
        (Returns (Some (CAClientUnavailable (orgName stub_msp_unregistered))),
         stub_msp_unregistered,
         [] @ map Call_EnrollmentOption [0..<length [''s3cr3t'']] @
           [Call_IdentityManager (orgName stub_msp_unregistered)])"
    using unregistered no_im by blast
  have e: "(\<exists>ts. snd (snd (Reenroll stub_msp ''alice'' [])) =
         [] @ Call_IdentityManager (orgName stub_msp) # Call_NewCAClient (orgName stub_msp) # ts) \<and>
      (\<exists>ts. snd (snd (Register stub_msp (Some stub_request) [])) =
         [] @ Call_IdentityManager (orgName stub_msp) # Call_NewCAClient (orgName stub_msp) # ts) \<and>
      (\<exists>ts. snd (snd (Revoke stub_msp (Some (stub_revocation ''alice'')) [])) =
         [] @ Call_IdentityManager (orgName stub_msp) # Call_NewCAClient (orgName stub_msp) # ts) \<and>
      (\<exists>ts. snd (snd (Enroll stub_msp ''alice'' (map WithSecret [''s3cr3t'']) [])) =
         [] @ map Call_EnrollmentOption [0..<length [''s3cr3t'']] @
           Call_IdentityManager (orgName stub_msp) # Call_NewCAClient (orgName stub_msp) # ts)"
    using registered ok by blast
  have f: "Enroll stub_msp ''alice''
        ([WithSecret ''s3cr3t''] @ stub_failing_EnrollmentOption # [WithSecret ''other'']) [] =
      (Returns (Some (WithMessage (Other ''bad option'') ''failed to enroll'')), stub_msp,
       [] @ map Call_EnrollmentOption [0..<Suc (length [WithSecret ''s3cr3t''])])"
    using registered opts param by blast
  have g: "Enroll stub_msp_unregistered ''alice'' [stub_failing_EnrollmentOption] [] =
      (Returns (Some (WithMessage (Other ''bad option'') ''failed to enroll'')),
       stub_msp_unregistered, [Call_EnrollmentOption 0])"
    using unregistered failing by blast
  have h: "snd (snd (GetUser stub_msp ''alice'' [])) =
        [] @ [Call_IdentityManager (orgName stub_msp), Call_im_GetUser ''alice''] \<and>
      snd (snd (GetSigningIdentity stub_msp ''alice'' [])) =
        [] @ [Call_IdentityManager (orgName stub_msp), Call_im_GetUser ''alice'']"
    using registered im by blast
  have upt: "[0..<Suc (Suc 0)] = [0, Suc 0]"
    by (simp add: upt_conv_Cons)
  show ?thesis
    using no_im ok im opts param failing a b c d e f g h
    by (simp add: org1 org2 upt)
qed

end
